theory Spec2Isabelle
  imports Main
begin

section \<open>Strings, digits and the note-name grammar\<close>

text \<open>
  Python strings are modelled as \<open>string\<close>, one \<open>char\<close> per code point, for the code
  points below 256. All note names, chord names and labels of the repository are ASCII.
\<close>

text \<open>The exceptions the scripts can raise. All but the last five are Python
  \<open>ValueError\<close>s, told apart by their message (or by the call that raised them):
  \<^item> \<open>InvalidNoteFormat\<close>: "Invalid note name format: ..." / "Invalid note format: ..."
  \<^item> \<open>InvalidNoteName\<close>: "Invalid note name: ..."
  \<^item> \<open>OutOfRange\<close>: "... outside valid range (0-127)"
  \<^item> \<open>InvalidTriadType\<close>: "Invalid triad type: ..."
  \<^item> \<open>InvalidKeySignature\<close>: "Invalid key signature: ..."
  \<^item> \<open>NotInList\<close>: the \<open>ValueError\<close> of \<open>list.index\<close>
  \<^item> \<open>InvalidLiteral\<close>: the \<open>ValueError\<close> of \<open>int(...)\<close>
  \<^item> \<open>IntMaxStrDigits\<close>: the \<open>ValueError\<close> of \<open>int(...)\<close> on more than 4300 digits and of
    printing an integer of more than 4300 digits (CPython 3.11 and later)
  \<^item> \<open>DataByteRange\<close>: the \<open>ValueError\<close> of the library's \<open>Message(...)\<close> for a note
    outside 0..127 ("data byte must be in range 0..127")
  \<^item> \<open>TempoRange\<close>: the \<open>ValueError\<close> of the library's \<open>MetaMessage('set_tempo', ...)\<close>
    for a tempo outside 0..0xffffff
  \<^item> \<open>NegativeTime\<close>: the \<open>ValueError\<close> of the library's \<open>save\<close> for a message with a
    negative time
  \<^item> \<open>EmbeddedNull\<close>: the \<open>ValueError\<close> of \<open>open\<close> for a name with a NUL character
  The others are \<open>IndexError\<close>, \<open>ZeroDivisionError\<close>, \<open>UnboundLocalError\<close>,
  \<open>OverflowError\<close> and \<open>OSError\<close> (with its subclasses, such as \<open>FileNotFoundError\<close>).\<close>

datatype error =
    InvalidNoteFormat | InvalidNoteName | OutOfRange | InvalidTriadType
  | InvalidKeySignature | NotInList | InvalidLiteral | IntMaxStrDigits | DataByteRange
  | TempoRange | NegativeTime | EmbeddedNull
  | IndexError | ZeroDivisionError | UnboundLocalError | OverflowError | OSError

text \<open>What \<open>except ValueError\<close> catches.\<close>

fun is_ValueError :: "error \<Rightarrow> bool" where
  "is_ValueError IndexError = False"
| "is_ValueError ZeroDivisionError = False"
| "is_ValueError UnboundLocalError = False"
| "is_ValueError OverflowError = False"
| "is_ValueError OSError = False"
| "is_ValueError _ = True"

definition NOTE_NAMES :: "string list" where
  "NOTE_NAMES = [''C'', ''C#'', ''D'', ''D#'', ''E'', ''F'', ''F#'', ''G'', ''G#'', ''A'', ''A#'', ''B'']"

text \<open>\<open>list.index\<close>: the position of the first occurrence, \<open>None\<close> where Python raises.\<close>

fun index_of :: "'a list \<Rightarrow> 'a \<Rightarrow> nat option" where
  "index_of [] x = None"
| "index_of (y # ys) x = (if x = y then Some 0 else map_option Suc (index_of ys x))"

definition is_digit :: "char \<Rightarrow> bool" where
  "is_digit c = (c \<in> set ''0123456789'')"

definition digit_val :: "char \<Rightarrow> nat" where
  "digit_val c = (case index_of ''0123456789'' c of Some d \<Rightarrow> d | None \<Rightarrow> 0)"

definition digit_char :: "nat \<Rightarrow> char" where
  "digit_char d = ''0123456789'' ! d"

text \<open>The value of a string of decimal digits.\<close>

definition nat_of_digits :: "string \<Rightarrow> nat" where
  "nat_of_digits ds = foldl (\<lambda>a c. 10 * a + digit_val c) 0 ds"

text \<open>
  \<open>int(s)\<close> on the second group of the note pattern: an optional minus sign and digits.
  CPython (3.11 and later, and the security releases of the older versions) refuses a
  string of more than 4300 digits and an integer of more than 4300 digits to print.
\<close>

definition int_max_str_digits :: nat where
  "int_max_str_digits = 4300"

definition py_int :: "string \<Rightarrow> error + int" where
  "py_int s = (case s of
       c # ds \<Rightarrow>
         if c = CHR ''-'' then
           (if int_max_str_digits < length ds then Inl IntMaxStrDigits
            else Inr (- int (nat_of_digits ds)))
         else
           (if int_max_str_digits < length s then Inl IntMaxStrDigits
            else Inr (int (nat_of_digits s)))
     | [] \<Rightarrow> Inl InvalidLiteral)"

text \<open>
  \<open>str(n)\<close> for a natural number and for an integer (what an f-string prints). Where
  the integer printed may have more than 4300 digits, the function that prints it
  checks \<open>too_long_to_print\<close> first.
\<close>

fun show_nat :: "nat \<Rightarrow> string" where
  "show_nat n = (if n < 10 then [digit_char n] else show_nat (n div 10) @ [digit_char (n mod 10)])"

declare show_nat.simps [simp del]

definition str_int :: "int \<Rightarrow> string" where
  "str_int i = (if i < 0 then CHR ''-'' # show_nat (nat (- i)) else show_nat (nat i))"

text \<open>An integer that is too long to print (see \<open>int_max_str_digits\<close>).\<close>

definition too_long_to_print :: "int \<Rightarrow> bool" where
  "too_long_to_print i = (int_max_str_digits < length (show_nat (nat \<bar>i\<bar>)))"

text \<open>An optional character of a pattern (\<open>#?\<close>, \<open>-?\<close>): what it consumed and what is left.\<close>

definition opt_char :: "char \<Rightarrow> string \<Rightarrow> string \<times> string" where
  "opt_char c s = (case s of x # r \<Rightarrow> if x = c then ([c], r) else ([], s) | [] \<Rightarrow> ([], s))"

text \<open>
  \<open>re.match(r'([A-G]#?)(-?\d+)', s)\<close>: a match at the start of \<open>s\<close>, not of the whole
  string. The result is group 1, group 2 and the unmatched rest. Both optional
  characters are greedy; giving one back never helps, since the digits cannot start at
  \<open>#\<close> or \<open>-\<close>, so the match is the one computed here or there is none.
\<close>

definition note_re_match :: "string \<Rightarrow> (string \<times> string \<times> string) option" where
  "note_re_match s = (case s of
       [] \<Rightarrow> None
     | c # r1 \<Rightarrow>
         if c \<in> set ''ABCDEFG'' then
           (let (sharp, r2) = opt_char (CHR ''#'') r1;
                (sign, r3) = opt_char (CHR ''-'') r2;
                ds = takeWhile is_digit r3
            in if ds = [] then None else Some (c # sharp, sign @ ds, dropWhile is_digit r3))
         else None)"

text \<open>
  \<open>re.match(r"^([A-G]#?)(-?\d+)$", s)\<close>, the anchored pattern of the scripts with the
  "fixed note parsing". In Python \<open>$\<close> matches at the end of the string and also just
  before a newline that ends the string.
\<close>

definition note_re_match_anchored :: "string \<Rightarrow> (string \<times> string) option" where
  "note_re_match_anchored s = (case note_re_match s of
       None \<Rightarrow> None
     | Some (g1, g2, rest) \<Rightarrow> if rest = [] \<or> rest = [CHR 0x0A] then Some (g1, g2) else None)"

text \<open>
  The first lines of \<open>create_note_midi_ableton_final\<close>, \<open>create_note_midi_standard\<close> and
  \<open>create_chord_triad_midi\<close> are the same: match the pattern, read the octave with
  \<open>int(...)\<close>, look the note name up. The result is the octave and the index of the
  note name.
\<close>

definition parse_note :: "string \<Rightarrow> error + (int \<times> nat)" where
  "parse_note s = (case note_re_match s of
       None \<Rightarrow> Inl InvalidNoteFormat
     | Some (note_name, oct, rest) \<Rightarrow>
         (case py_int oct of
            Inl e \<Rightarrow> Inl e
          | Inr octave \<Rightarrow>
              (case index_of NOTE_NAMES note_name of
                 None \<Rightarrow> Inl InvalidNoteName
               | Some note_index \<Rightarrow> Inr (octave, note_index))))"

text \<open>
  The error of the range check in \<open>create_note_midi_ableton_final\<close> and
  \<open>create_note_midi_standard\<close>. Its message prints the MIDI number, so for a number of
  more than 4300 digits the \<open>ValueError\<close> that is raised is the one of the printing.
\<close>

definition out_of_range :: "int \<Rightarrow> error" where
  "out_of_range midi =
     (if too_long_to_print midi then IntMaxStrDigits else OutOfRange)"

subsection \<open>Display names (\<open>create_chords.py\<close>)\<close>

definition midi_to_ableton_notation :: "int \<Rightarrow> string" where
  "midi_to_ableton_notation midi_note =
     NOTE_NAMES ! nat (midi_note mod 12) @ str_int (midi_note div 12 - 1)"

definition midi_to_standard_notation :: "int \<Rightarrow> string" where
  "midi_to_standard_notation midi_note =
     NOTE_NAMES ! nat (midi_note mod 12) @ str_int (midi_note div 12 - 2)"

definition midi_to_note_name :: "int \<Rightarrow> string" where
  "midi_to_note_name midi_note = midi_to_standard_notation midi_note"

section \<open>MIDI events, files and the console\<close>

text \<open>
  The messages appended to a track, each with its time in ticks (the last field), an
  integer as in the source. \<open>NoteOn note velocity time\<close>,
  \<open>TimeSignature numerator denominator clocks_per_click notated_32nd_notes_per_beat
  time\<close>.
\<close>

datatype event =
    TrackName string int
  | SetTempo int int
  | TimeSignature nat nat nat nat int
  | NoteOn int nat int
  | NoteOff int nat int
  | EndOfTrack int

fun event_time :: "event \<Rightarrow> int" where
  "event_time (TrackName _ t) = t"
| "event_time (SetTempo _ t) = t"
| "event_time (TimeSignature _ _ _ _ t) = t"
| "event_time (NoteOn _ _ t) = t"
| "event_time (NoteOff _ _ t) = t"
| "event_time (EndOfTrack t) = t"

text \<open>
  The lines of the console report that the claims speak about: "Created: <filename>" and
  "Skipping <name>: <error>". The other lines (banners, frequencies, durations in bars)
  are not modelled, but the exceptions that computing them can raise are.
\<close>

datatype notice = Created string | Skipping string error

text \<open>
  The part of the process state the generators change: the working directory, the files
  on disk (path to track content) and the console. What the operating system answers
  is part of the world and is not changed by the generators: \<open>save_error path\<close> is the
  exception that opening the file at \<open>path\<close> for writing raises, if any (\<open>OSError\<close> for
  a missing directory or a name that is too long, the \<open>ValueError\<close> for a name with a
  NUL character), and \<open>dir_error path\<close> the exception that creating and entering the
  directory at \<open>path\<close> raises, if any.
\<close>

record world =
  cwd :: string
  files :: "string \<rightharpoonup> event list"
  console :: "notice list"
  save_error :: "string \<Rightarrow> error option"
  dir_error :: "string \<Rightarrow> error option"

definition chdir :: "string \<Rightarrow> world \<Rightarrow> world" where
  \<comment> \<open>\<open>os.chdir\<close> with a relative directory\<close>
  "chdir d w = w\<lparr>cwd := cwd w @ ''/'' @ d\<rparr>"

text \<open>
  The library function \<open>fix_end_of_track\<close>, applied to a track when it is written:
  every end-of-track message is removed, its time is added to the message after it, and
  one end-of-track message is put at the end.
\<close>

fun with_time :: "int \<Rightarrow> event \<Rightarrow> event" where
  "with_time t (TrackName n _) = TrackName n t"
| "with_time t (SetTempo x _) = SetTempo x t"
| "with_time t (TimeSignature a b c d _) = TimeSignature a b c d t"
| "with_time t (NoteOn p v _) = NoteOn p v t"
| "with_time t (NoteOff p v _) = NoteOff p v t"
| "with_time t (EndOfTrack _) = EndOfTrack t"

fun fix_end_of_track :: "int \<Rightarrow> event list \<Rightarrow> event list" where
  "fix_end_of_track accum [] = [EndOfTrack accum]"
| "fix_end_of_track accum (EndOfTrack t # msgs) = fix_end_of_track (accum + t) msgs"
| "fix_end_of_track accum (msg # msgs) =
     with_time (accum + event_time msg) msg # fix_end_of_track 0 msgs"

text \<open>
  \<open>mid.save(filename)\<close>: the library opens the file in the working directory, writes
  the header and then the track, replacing an older file. It refuses a message with a
  negative time when it writes the track; the header is written by then, so a refused
  save leaves a file without events.
\<close>

definition mid_save :: "string \<Rightarrow> event list \<Rightarrow> world \<Rightarrow> error option \<times> world" where
  "mid_save filename track w =
     (let path = cwd w @ ''/'' @ filename;
          written = fix_end_of_track 0 track
      in case save_error w path of
           Some e \<Rightarrow> (Some e, w)
         | None \<Rightarrow>
             if \<exists>msg \<in> set written. event_time msg < 0
             then (Some NegativeTime, w\<lparr>files := (files w)(path \<mapsto> [])\<rparr>)
             else (None, w\<lparr>files := (files w)(path \<mapsto> written)\<rparr>))"

definition print :: "notice \<Rightarrow> world \<Rightarrow> world" where
  "print n w = w\<lparr>console := console w @ [n]\<rparr>"

text \<open>
  \<open>f"{n:02d}"\<close>, \<open>f"{n:03d}"\<close>: decimal, padded with zeros on the left up to the width.
  File numbers are natural numbers: the drivers count them from 1.
\<close>

definition fmt_d :: "nat \<Rightarrow> nat \<Rightarrow> string" where
  "fmt_d width n = replicate (width - length (show_nat n)) (CHR ''0'') @ show_nat n"

text \<open>
  The true division \<open>a / b\<close> of two integers raises \<open>OverflowError\<close> when the quotient,
  rounded to a float, is beyond the largest float, that is from \<open>2^1024 - 2^970\<close> on.
\<close>

definition true_div_overflows :: "int \<Rightarrow> int \<Rightarrow> bool" where
  "true_div_overflows a b = (\<bar>b\<bar> * (2 ^ 1024 - 2 ^ 970) \<le> \<bar>a\<bar>)"

text \<open>
  The exception of the report line
  \<open>f"Duration: {duration_ticks} ticks ({duration_ticks/1920} bars)"\<close>, if any.
\<close>

definition duration_report_error :: "int \<Rightarrow> error option" where
  "duration_report_error duration_ticks =
     (if too_long_to_print duration_ticks then Some IntMaxStrDigits
      else if true_div_overflows duration_ticks 1920 then Some OverflowError
      else None)"

text \<open>
  The library function \<open>mido.bpm2tempo\<close>, \<open>int(round(60 * 1e6 / bpm))\<close>, for an integer
  number of beats per minute: microseconds per beat, rounded to the nearest integer, a
  half to the even one. Division by zero raises, and so does the conversion to a float
  of an integer from \<open>2^1024 - 2^970\<close> on. Every caller in the repository passes 120,
  which gives 500000.
\<close>

definition round_half_even :: "int \<Rightarrow> int \<Rightarrow> int" where
  \<comment> \<open>\<open>a / b\<close> for \<open>0 < b\<close>\<close>
  "round_half_even a b =
     (let q = a div b; r = a mod b
      in if 2 * r < b then q else if b < 2 * r then q + 1 else if even q then q else q + 1)"

definition bpm2tempo :: "int \<Rightarrow> error + int" where
  "bpm2tempo bpm =
     (if 2 ^ 1024 - 2 ^ 970 \<le> \<bar>bpm\<bar> then Inl OverflowError
      else if bpm = 0 then Inl ZeroDivisionError
      else if 0 < bpm then Inr (round_half_even 60000000 bpm)
      else Inr (- round_half_even 60000000 (- bpm)))"

text \<open>
  \<open>MetaMessage('set_tempo', tempo=tempo, time=0)\<close>: the library accepts a tempo of 24
  bits.
\<close>

definition set_tempo :: "int \<Rightarrow> error + event" where
  "set_tempo tempo =
     (if 0 \<le> tempo \<and> tempo \<le> 16777215 then Inr (SetTempo tempo 0) else Inl TempoRange)"

text \<open>
  \<open>str.lower()\<close>. Only the ASCII letters are mapped: the result is only ever compared
  with the ASCII words \<open>major\<close>, \<open>minor\<close>, \<open>diminished\<close>, \<open>augmented\<close>, and no other
  character becomes an ASCII letter when lowered.
\<close>

definition lower_char :: "char \<Rightarrow> char" where
  "lower_char c = (case index_of ''ABCDEFGHIJKLMNOPQRSTUVWXYZ'' c of
       Some i \<Rightarrow> ''abcdefghijklmnopqrstuvwxyz'' ! i
     | None \<Rightarrow> c)"

definition lower :: "string \<Rightarrow> string" where
  "lower s = map lower_char s"

section \<open>\<open>create_notes.py\<close>\<close>

definition DEFAULT_DURATION_TICKS :: int where
  "DEFAULT_DURATION_TICKS = 3840"

text \<open>
  The functions return the track they built (the one track of the returned
  \<open>MidiFile\<close>) or raise, and leave a world. Every \<open>raise\<close> up to \<open>mid.save\<close> leaves the
  world as it was; the report after \<open>mid.save\<close> can still raise, for a duration that is
  too long to print or to divide. The tempo is computed for the \<open>bpm\<close> given; every
  caller in the repository leaves it at 120.
\<close>

definition create_note_midi_ableton_final ::
    "string \<Rightarrow> nat \<Rightarrow> int \<Rightarrow> int \<Rightarrow> world \<Rightarrow> (error + event list) \<times> world" where
  "create_note_midi_ableton_final ableton_display_name file_number duration_ticks bpm w =
     (case parse_note ableton_display_name of
        Inl e \<Rightarrow> (Inl e, w)
      | Inr (octave, note_index) \<Rightarrow>
          let ableton_midi = (octave + 2) * 12 + int note_index in
          if ableton_midi < 0 \<or> ableton_midi > 127 then (Inl (out_of_range ableton_midi), w)
          else
            (case bpm2tempo bpm of
               Inl e \<Rightarrow> (Inl e, w)
             | Inr tempo \<Rightarrow>
                 (case set_tempo tempo of
                    Inl e \<Rightarrow> (Inl e, w)
                  | Inr tempo_message \<Rightarrow>
                      let track = [TrackName (''Note '' @ ableton_display_name) 0,
                                   tempo_message,
                                   TimeSignature 4 4 24 8 0,
                                   NoteOn ableton_midi 64 0,
                                   NoteOff ableton_midi 64 duration_ticks,
                                   EndOfTrack 0];
                          filename = fmt_d 2 file_number @ '' '' @ ableton_display_name @ ''.mid''
                      in if too_long_to_print (int file_number) then (Inl IntMaxStrDigits, w)
                         else
                           (case mid_save filename track w of
                              (Some e, w') \<Rightarrow> (Inl e, w')
                            | (None, w') \<Rightarrow>
                                (case duration_report_error duration_ticks of
                                   Some e \<Rightarrow> (Inl e, print (Created filename) w')
                                 | None \<Rightarrow> (Inr track, print (Created filename) w'))))))"

definition create_note_midi_standard ::
    "string \<Rightarrow> nat \<Rightarrow> int \<Rightarrow> int \<Rightarrow> world \<Rightarrow> (error + event list) \<times> world" where
  "create_note_midi_standard standard_display_name file_number duration_ticks bpm w =
     (case parse_note standard_display_name of
        Inl e \<Rightarrow> (Inl e, w)
      | Inr (octave, note_index) \<Rightarrow>
          let standard_midi = (octave + 1) * 12 + int note_index in
          if standard_midi < 0 \<or> standard_midi > 127 then (Inl (out_of_range standard_midi), w)
          else
            (case bpm2tempo bpm of
               Inl e \<Rightarrow> (Inl e, w)
             | Inr tempo \<Rightarrow>
                 (case set_tempo tempo of
                    Inl e \<Rightarrow> (Inl e, w)
                  | Inr tempo_message \<Rightarrow>
                      let track = [TrackName (''Note '' @ standard_display_name @ '' (Standard)'') 0,
                                   tempo_message,
                                   TimeSignature 4 4 24 8 0,
                                   NoteOn standard_midi 64 0,
                                   NoteOff standard_midi 64 duration_ticks,
                                   EndOfTrack 0];
                          filename = fmt_d 2 file_number @ '' '' @ standard_display_name
                                       @ ''_standard.mid''
                      in if too_long_to_print (int file_number) then (Inl IntMaxStrDigits, w)
                         else
                           (case mid_save filename track w of
                              (Some e, w') \<Rightarrow> (Inl e, w')
                            | (None, w') \<Rightarrow>
                                (case duration_report_error duration_ticks of
                                   Some e \<Rightarrow> (Inl e, print (Created filename) w')
                                 | None \<Rightarrow> (Inr track, print (Created filename) w'))))))"

text \<open>
  The names that the two functions report beside the file ("Plays at: ... pitch
  (standard notation)", "Will display in Ableton as: ..."): the inverse of the other
  function's formula.
\<close>

definition standard_name :: "int \<Rightarrow> string" where
  \<comment> \<open>\<open>create_note_midi_ableton_final\<close>, lines 50-53\<close>
  "standard_name standard_midi =
     NOTE_NAMES ! nat (standard_midi mod 12) @ str_int (standard_midi div 12 - 1)"

definition ableton_display :: "int \<Rightarrow> string" where
  \<comment> \<open>\<open>create_note_midi_standard\<close>, lines 131-134\<close>
  "ableton_display ableton_midi =
     NOTE_NAMES ! nat (ableton_midi mod 12) @ str_int (ableton_midi div 12 - 2)"

subsection \<open>The range drivers\<close>

text \<open>
  A \<open>for\<close> loop over a list whose body may raise: an exception that escapes the body
  ends the loop, and the world stays as the body left it.
\<close>

fun for_each ::
    "('a \<Rightarrow> world \<Rightarrow> error option \<times> world) \<Rightarrow> 'a list \<Rightarrow> world \<Rightarrow> error option \<times> world" where
  "for_each body [] w = (None, w)"
| "for_each body (x # xs) w =
     (case body x w of
        (None, w') \<Rightarrow> for_each body xs w'
      | (Some e, w') \<Rightarrow> (Some e, w'))"

text \<open>\<open>enumerate(xs, start=1)\<close>.\<close>

definition enumerate1 :: "'a list \<Rightarrow> (nat \<times> 'a) list" where
  "enumerate1 xs = zip [1..<Suc (length xs)] xs"

text \<open>
  \<open>try: ... except ValueError as e: print(f"Skipping {label}: {e}")\<close>: the outcome of the
  guarded statements is the first argument. Another exception escapes.
\<close>

definition except_ValueError ::
    "string \<Rightarrow> (error + 'a) \<times> world \<Rightarrow> error option \<times> world" where
  "except_ValueError label r =
     (case r of
        (Inr _, w2) \<Rightarrow> (None, w2)
      | (Inl e, w2) \<Rightarrow>
          if is_ValueError e then (None, print (Skipping label e) w2) else (Some e, w2))"

text \<open>
  The body of the drivers' loops: \<open>os.chdir(output_dir)\<close>, the guarded statements,
  \<open>os.chdir(original_dir)\<close>. An exception that escapes leaves the directory changed.
\<close>

definition in_output_dir ::
    "string \<Rightarrow> string \<Rightarrow> (world \<Rightarrow> (error + 'a) \<times> world) \<Rightarrow> world \<Rightarrow> error option \<times> world" where
  "in_output_dir output_dir label guarded w =
     (let original_dir = cwd w in
      case except_ValueError label (guarded (chdir output_dir w)) of
        (None, w2) \<Rightarrow> (None, w2\<lparr>cwd := original_dir\<rparr>)
      | (Some e, w2) \<Rightarrow> (Some e, w2))"

text \<open>
  \<open>os.makedirs(output_dir)\<close> if the directory is not there, as every generator starts;
  directories are not part of the world, only the exception is.
\<close>

definition makedirs :: "string \<Rightarrow> world \<Rightarrow> error option" where
  "makedirs output_dir w = dir_error w (cwd w @ ''/'' @ output_dir)"

text \<open>
  The start and end notes of a range: both patterns are matched first, then both octaves
  are read with \<open>int(...)\<close>, then both names are looked up with \<open>NOTE_NAMES.index\<close>. The
  result is octave and index of each.
\<close>

definition parse_range :: "string \<Rightarrow> string \<Rightarrow> error + ((int \<times> nat) \<times> (int \<times> nat))" where
  "parse_range start_note end_note =
     (case (note_re_match start_note, note_re_match end_note) of
        (Some (start_note_name, start_group2, _), Some (end_note_name, end_group2, _)) \<Rightarrow>
          (case py_int start_group2 of
             Inl e \<Rightarrow> Inl e
           | Inr start_octave \<Rightarrow>
               (case py_int end_group2 of
                  Inl e \<Rightarrow> Inl e
                | Inr end_octave \<Rightarrow>
                    (case index_of NOTE_NAMES start_note_name of
                       None \<Rightarrow> Inl NotInList
                     | Some start_note_index \<Rightarrow>
                         (case index_of NOTE_NAMES end_note_name of
                            None \<Rightarrow> Inl NotInList
                          | Some end_note_index \<Rightarrow>
                              Inr ((start_octave, start_note_index),
                                   (end_octave, end_note_index))))))
      | _ \<Rightarrow> Inl InvalidNoteFormat)"

text \<open>
  The nested loops that list the notes of a range with the MIDI number used for sorting;
  \<open>offset\<close> is 2 in the Ableton drivers and 1 in the standard one.
\<close>

definition range_notes :: "int \<Rightarrow> int \<Rightarrow> nat \<Rightarrow> int \<Rightarrow> nat \<Rightarrow> (string \<times> int) list" where
  "range_notes offset start_octave start_note_index end_octave end_note_index =
     concat (map (\<lambda>octave.
        map (\<lambda>note_idx. (NOTE_NAMES ! note_idx @ str_int octave,
                          (octave + offset) * 12 + int note_idx))
            [(if octave = start_octave then start_note_index else 0) ..<
             (if octave = end_octave then end_note_index + 1 else 12)])
        [start_octave..end_octave])"

definition plain_note_track :: "int \<Rightarrow> int \<Rightarrow> event list" where
  \<comment> \<open>the track of the branch without track names\<close>
  "plain_note_track midi_num duration_ticks =
     [NoteOn midi_num 64 0, NoteOff midi_num 64 duration_ticks]"

text \<open>
  The branch without track names: the library refuses a note outside 0..127 when the
  message is built; the report after the save prints the duration.
\<close>

definition create_plain_note ::
    "string \<Rightarrow> nat \<Rightarrow> int \<Rightarrow> int \<Rightarrow> world \<Rightarrow> (error + unit) \<times> world" where
  "create_plain_note display_name file_number midi_num duration_ticks w =
     (if 0 \<le> midi_num \<and> midi_num \<le> 127 then
        (let filename = fmt_d 2 file_number @ '' '' @ display_name @ ''.mid''
         in if too_long_to_print (int file_number) then (Inl IntMaxStrDigits, w)
            else
              (case mid_save filename (plain_note_track midi_num duration_ticks) w of
                 (Some e, w') \<Rightarrow> (Inl e, w')
               | (None, w') \<Rightarrow>
                   if too_long_to_print duration_ticks then (Inl IntMaxStrDigits, w')
                   else (Inr (), print (Created filename) w')))
      else (Inl DataByteRange, w))"

definition ableton_range_body ::
    "string \<Rightarrow> bool \<Rightarrow> int \<Rightarrow> nat \<times> string \<times> int \<Rightarrow> world \<Rightarrow> error option \<times> world" where
  "ableton_range_body output_dir include_track_names duration_ticks =
     (\<lambda>(file_number, display_name, midi_num).
        in_output_dir output_dir display_name
          (\<lambda>w1. if include_track_names then
                  map_prod (map_sum id (\<lambda>_. ())) id
                    (create_note_midi_ableton_final display_name file_number duration_ticks 120 w1)
                else create_plain_note display_name file_number midi_num duration_ticks w1))"

definition generate_ableton_range ::
    "string \<Rightarrow> string \<Rightarrow> bool \<Rightarrow> int \<Rightarrow> world \<Rightarrow> error option \<times> world" where
  "generate_ableton_range start_note end_note include_track_names duration_ticks w =
     (let output_dir = ''midi_files_ableton_sequential'' in
      case makedirs output_dir w of
        Some e \<Rightarrow> (Some e, w)
      | None \<Rightarrow>
          (case duration_report_error duration_ticks of
             Some e \<Rightarrow> (Some e, w)
           | None \<Rightarrow>
               (case parse_range start_note end_note of
                  Inl e \<Rightarrow> (Some e, w)
                | Inr ((start_octave, start_note_index), (end_octave, end_note_index)) \<Rightarrow>
                    let all_notes = sort_key snd
                          (range_notes 2 start_octave start_note_index end_octave end_note_index)
                    in for_each
                         (ableton_range_body output_dir include_track_names duration_ticks)
                         (enumerate1 all_notes) w)))"

definition standard_range_body ::
    "string \<Rightarrow> int \<Rightarrow> nat \<times> string \<times> int \<Rightarrow> world \<Rightarrow> error option \<times> world" where
  "standard_range_body output_dir duration_ticks =
     (\<lambda>(file_number, display_name, midi_num).
        in_output_dir output_dir display_name
          (create_note_midi_standard display_name file_number duration_ticks 120))"

definition generate_standard_range ::
    "string \<Rightarrow> string \<Rightarrow> int \<Rightarrow> world \<Rightarrow> error option \<times> world" where
  "generate_standard_range start_note end_note duration_ticks w =
     (let output_dir = ''midi_files_standard_sequential'' in
      case makedirs output_dir w of
        Some e \<Rightarrow> (Some e, w)
      | None \<Rightarrow>
          (case duration_report_error duration_ticks of
             Some e \<Rightarrow> (Some e, w)
           | None \<Rightarrow>
               (case parse_range start_note end_note of
                  Inl e \<Rightarrow> (Some e, w)
                | Inr ((start_octave, start_note_index), (end_octave, end_note_index)) \<Rightarrow>
                    let all_notes = sort_key snd
                          (range_notes 1 start_octave start_note_index end_octave end_note_index)
                    in for_each (standard_range_body output_dir duration_ticks)
                         (enumerate1 all_notes) w)))"

text \<open>
  \<open>generate_middle_c_range\<close>: the notes of the octaves 2, 3 and 4, sorted and numbered,
  each written by the statements of the loop body itself. The directory is entered once
  before the loop and left after it.
\<close>

definition middle_c_notes :: "(string \<times> int) list" where
  "middle_c_notes =
     concat (map (\<lambda>octave.
        map (\<lambda>note_name.
               (note_name @ str_int octave,
                (octave + 2) * 12 + int (case index_of NOTE_NAMES note_name of Some i \<Rightarrow> i | None \<Rightarrow> 0)))
            NOTE_NAMES)
        [2, 3, 4])"

definition middle_c_body ::
    "int \<Rightarrow> nat \<times> string \<times> int \<Rightarrow> world \<Rightarrow> error option \<times> world" where
  "middle_c_body duration_ticks =
     (\<lambda>(file_number, display_name, midi_num) w.
        except_ValueError display_name
          (if 0 \<le> midi_num \<and> midi_num \<le> 127 then
             (let track = [TrackName (''Note '' @ display_name) 0,
                           SetTempo 500000 0,
                           TimeSignature 4 4 24 8 0,
                           NoteOn midi_num 64 0,
                           NoteOff midi_num 64 duration_ticks,
                           EndOfTrack 0];
                  filename = fmt_d 2 file_number @ '' '' @ display_name @ ''.mid''
              in if too_long_to_print (int file_number) then (Inl IntMaxStrDigits, w)
                 else
                   (case mid_save filename track w of
                      (Some e, w') \<Rightarrow> (Inl e, w')
                    | (None, w') \<Rightarrow> (Inr (), print (Created filename) w')))
           else (Inl DataByteRange, w)))"

definition generate_middle_c_range :: "int \<Rightarrow> world \<Rightarrow> error option \<times> world" where
  "generate_middle_c_range duration_ticks w =
     (case duration_report_error duration_ticks of
        Some e \<Rightarrow> (Some e, w)
      | None \<Rightarrow>
          let output_dir = ''middle_c_range_sequential'' in
          (case makedirs output_dir w of
             Some e \<Rightarrow> (Some e, w)
           | None \<Rightarrow>
               let original_dir = cwd w;
                   notes_to_generate = sort_key snd middle_c_notes
               in (case for_each (middle_c_body duration_ticks) (enumerate1 notes_to_generate)
                         (chdir output_dir w) of
                     (None, w') \<Rightarrow> (None, w'\<lparr>cwd := original_dir\<rparr>)
                   | (Some e, w') \<Rightarrow> (Some e, w'))))"

section \<open>\<open>create_chords.py\<close>\<close>

definition NOTE_DURATION_TICKS :: int where
  "NOTE_DURATION_TICKS = 3840"

definition BPM :: int where
  "BPM = 120"

definition KEY_SIGNATURES :: "(string \<times> string \<times> string list) list" where
  \<comment> \<open>key signature, tonality, chords\<close>
  "KEY_SIGNATURES = [
     (''C Major'', (''major'', [''C Major'', ''D Minor'', ''E Minor'', ''F Major'', ''G Major'', ''A Minor'', ''B Diminished''])),
     (''C# Major'', (''major'', [''C# Major'', ''D# Minor'', ''F Minor'', ''F# Major'', ''G# Major'', ''A# Minor'', ''C Diminished''])),
     (''D Major'', (''major'', [''D Major'', ''E Minor'', ''F# Minor'', ''G Major'', ''A Major'', ''B Minor'', ''C# Diminished''])),
     (''D# Major'', (''major'', [''D# Major'', ''F Minor'', ''G Minor'', ''G# Major'', ''A# Major'', ''C Minor'', ''D Diminished''])),
     (''E Major'', (''major'', [''E Major'', ''F# Minor'', ''G# Minor'', ''A Major'', ''B Major'', ''C# Minor'', ''D# Diminished''])),
     (''F Major'', (''major'', [''F Major'', ''G Minor'', ''A Minor'', ''A# Major'', ''C Major'', ''D Minor'', ''E Diminished''])),
     (''F# Major'', (''major'', [''F# Major'', ''G# Minor'', ''A# Minor'', ''B Major'', ''C# Major'', ''D# Minor'', ''F Diminished''])),
     (''G Major'', (''major'', [''G Major'', ''A Minor'', ''B Minor'', ''C Major'', ''D Major'', ''E Minor'', ''F# Diminished''])),
     (''G# Major'', (''major'', [''G# Major'', ''A# Minor'', ''C Minor'', ''C# Major'', ''D# Major'', ''F Minor'', ''G Diminished''])),
     (''A Major'', (''major'', [''A Major'', ''B Minor'', ''C# Minor'', ''D Major'', ''E Major'', ''F# Minor'', ''G# Diminished''])),
     (''A# Major'', (''major'', [''A# Major'', ''C Minor'', ''D Minor'', ''D# Major'', ''F Major'', ''G Minor'', ''A Diminished''])),
     (''B Major'', (''major'', [''B Major'', ''C# Minor'', ''D# Minor'', ''E Major'', ''F# Major'', ''G# Minor'', ''A# Diminished''])),
     (''C Minor'', (''minor'', [''C Minor'', ''D Diminished'', ''Eb Major'', ''F Minor'', ''G Minor'', ''Ab Major'', ''Bb Major''])),
     (''C# Minor'', (''minor'', [''C# Minor'', ''D# Diminished'', ''E Major'', ''F# Minor'', ''G# Minor'', ''A Major'', ''B Major''])),
     (''D Minor'', (''minor'', [''D Minor'', ''E Diminished'', ''F Major'', ''G Minor'', ''A Minor'', ''Bb Major'', ''C Major''])),
     (''D# Minor'', (''minor'', [''D# Minor'', ''F Diminished'', ''Gb Major'', ''G# Minor'', ''A# Minor'', ''B Major'', ''C# Major''])),
     (''E Minor'', (''minor'', [''E Minor'', ''F# Diminished'', ''G Major'', ''A Minor'', ''B Minor'', ''C Major'', ''D Major''])),
     (''F Minor'', (''minor'', [''F Minor'', ''G Diminished'', ''Ab Major'', ''Bb Minor'', ''C Minor'', ''Db Major'', ''Eb Major''])),
     (''F# Minor'', (''minor'', [''F# Minor'', ''G# Diminished'', ''A Major'', ''B Minor'', ''C# Minor'', ''D Major'', ''E Major''])),
     (''G Minor'', (''minor'', [''G Minor'', ''A Diminished'', ''Bb Major'', ''C Minor'', ''D Minor'', ''Eb Major'', ''F Major''])),
     (''G# Minor'', (''minor'', [''G# Minor'', ''A# Diminished'', ''B Major'', ''C# Minor'', ''D# Minor'', ''E Major'', ''F# Major''])),
     (''A Minor'', (''minor'', [''A Minor'', ''B Diminished'', ''C Major'', ''D Minor'', ''E Minor'', ''F Major'', ''G Major''])),
     (''A# Minor'', (''minor'', [''A# Minor'', ''C Diminished'', ''Db Major'', ''Eb Minor'', ''F Minor'', ''Gb Major'', ''Ab Major''])),
     (''B Minor'', (''minor'', [''B Minor'', ''C# Diminished'', ''D Major'', ''E Minor'', ''F# Minor'', ''G Major'', ''A Major'']))]"


text \<open>The third and the fifth of a triad (the \<open>if\<close>/\<open>elif\<close> chain on \<open>triad_type.lower()\<close>).\<close>

definition triad_notes :: "int \<Rightarrow> string \<Rightarrow> error + (int \<times> int)" where
  "triad_notes root_midi triad_type =
     (if lower triad_type = ''major'' then Inr (root_midi + 4, root_midi + 7)
      else if lower triad_type = ''minor'' then Inr (root_midi + 3, root_midi + 7)
      else if lower triad_type = ''diminished'' then Inr (root_midi + 3, root_midi + 6)
      else if lower triad_type = ''augmented'' then Inr (root_midi + 4, root_midi + 8)
      else Inl InvalidTriadType)"

text \<open>
  After the save the function computes the duration in bars and in seconds,
  \<open>duration_ticks / 480\<close> and \<open>(duration_ticks * 60) / (bpm * 480)\<close>, and then reports the
  file.
\<close>

definition create_chord_triad_midi ::
    "string \<Rightarrow> string \<Rightarrow> nat \<Rightarrow> int \<Rightarrow> int \<Rightarrow> world \<Rightarrow> (error + event list) \<times> world" where
  "create_chord_triad_midi root_note triad_type file_number duration_ticks bpm w =
     (case parse_note root_note of
        Inl e \<Rightarrow> (Inl e, w)
      | Inr (octave, root_index) \<Rightarrow>
          let root_midi = (octave + 2) * 12 + int root_index in
          (case triad_notes root_midi triad_type of
             Inl e \<Rightarrow> (Inl e, w)
           | Inr (third_midi, fifth_midi) \<Rightarrow>
               if \<exists>note \<in> set [root_midi, third_midi, fifth_midi]. note < 0 \<or> note > 127
               then (Inl OutOfRange, w)
               else
                 (case bpm2tempo bpm of
                    Inl e \<Rightarrow> (Inl e, w)
                  | Inr tempo \<Rightarrow>
                      (case set_tempo tempo of
                         Inl e \<Rightarrow> (Inl e, w)
                       | Inr tempo_message \<Rightarrow>
                           let track = [TrackName (root_note @ '' '' @ triad_type) 0,
                                        tempo_message,
                                        TimeSignature 4 4 24 8 0,
                                        NoteOn root_midi 64 0,
                                        NoteOn third_midi 60 0,
                                        NoteOn fifth_midi 56 0,
                                        NoteOff root_midi 64 duration_ticks,
                                        NoteOff third_midi 60 0,
                                        NoteOff fifth_midi 56 0,
                                        EndOfTrack 0];
                               filename = fmt_d 3 file_number @ '' '' @ root_note @ '' ''
                                            @ triad_type @ ''.mid''
                           in if too_long_to_print (int file_number)
                              then (Inl IntMaxStrDigits, w)
                              else
                                (case mid_save filename track w of
                                   (Some e, w') \<Rightarrow> (Inl e, w')
                                 | (None, w') \<Rightarrow>
                                     if true_div_overflows duration_ticks 480
                                        \<or> true_div_overflows (duration_ticks * 60) (bpm * 480)
                                     then (Inl OverflowError, w')
                                     else (Inr track, print (Created filename) w'))))))"

text \<open>\<open>s.replace(c, t)\<close> for a single character \<open>c\<close>.\<close>

definition replace_char :: "char \<Rightarrow> string \<Rightarrow> string \<Rightarrow> string" where
  "replace_char c t s = concat (map (\<lambda>x. if x = c then t else [x]) s)"

text \<open>
  The loop that writes the chords, the same in both chord drivers. An entry is the file
  number, the root note, the triad type and the root's MIDI number, which the loop does
  not use (\<open>generate_key_chords\<close> carries the octave as a fifth component, unused as
  well).
\<close>

definition chord_body ::
    "string \<Rightarrow> nat \<times> string \<times> string \<times> int \<Rightarrow> world \<Rightarrow> error option \<times> world" where
  "chord_body output_dir =
     (\<lambda>(file_number, root_note_ableton, triad_type, root_midi).
        in_output_dir output_dir (root_note_ableton @ '' '' @ triad_type)
          (create_chord_triad_midi root_note_ableton triad_type file_number
             NOTE_DURATION_TICKS BPM))"

definition triad_types :: "string list" where
  "triad_types = [''Major'', ''Minor'', ''Diminished'', ''Augmented'']"

text \<open>Root times type, numbered by a running counter from 1.\<close>

definition all_chords_of_roots :: "(string \<times> int) list \<Rightarrow> (nat \<times> string \<times> string \<times> int) list" where
  "all_chords_of_roots all_root_notes =
     enumerate1 (concat (map (\<lambda>(root_note_ableton, root_midi).
        map (\<lambda>triad_type. (root_note_ableton, triad_type, root_midi)) triad_types) all_root_notes))"

text \<open>
  After the files are written the driver lists the first eight and the last four
  chords with their three MIDI numbers, computed again from the root and the triad
  type.
\<close>

definition example_too_long :: "nat \<times> string \<times> string \<times> int \<Rightarrow> bool" where
  "example_too_long =
     (\<lambda>(file_num, root, ttype, midi).
        too_long_to_print midi
        \<or> too_long_to_print (if lower ttype \<in> set [''major'', ''augmented''] then midi + 4 else midi + 3)
        \<or> too_long_to_print (if lower ttype \<in> set [''major'', ''minor''] then midi + 7
                              else if lower ttype = ''diminished'' then midi + 6 else midi + 8))"

definition generate_chord_triads_range :: "string \<Rightarrow> string \<Rightarrow> world \<Rightarrow> error option \<times> world" where
  "generate_chord_triads_range start_note end_note w =
     (let main_output_dir = ''midi_files_ableton_triads'';
          output_dir = main_output_dir @ ''/'' @
            replace_char (CHR ''#'') ''sharp'' (''range_'' @ start_note @ ''_to_'' @ end_note)
      in case makedirs main_output_dir w of
           Some e \<Rightarrow> (Some e, w)
         | None \<Rightarrow>
             (case makedirs output_dir w of
                Some e \<Rightarrow> (Some e, w)
              | None \<Rightarrow>
                  (case parse_range start_note end_note of
                     Inl e \<Rightarrow> (Some e, w)
                   | Inr ((start_octave, start_note_index), (end_octave, end_note_index)) \<Rightarrow>
                       let all_root_notes = sort_key snd
                             (range_notes 2 start_octave start_note_index end_octave end_note_index);
                           all_chords = all_chords_of_roots all_root_notes
                       in (case for_each (chord_body output_dir) all_chords w of
                             (None, w') \<Rightarrow>
                               if \<exists>chord \<in> set (take 8 all_chords
                                                  @ drop (length all_chords - 4) all_chords).
                                    example_too_long chord
                               then (Some IntMaxStrDigits, w') else (None, w')
                           | (Some e, w') \<Rightarrow> (Some e, w')))))"

text \<open>
  The loop of \<open>generate_key_chords\<close> that splits a chord name into root and triad type.
  A name that starts with a flat is mapped to its sharp; any other name is cut at its
  first space. A name without a space assigns nothing, so the variables keep the values
  of the chord before (\<open>prev\<close>), or are unbound on the first chord.
\<close>

fun parse_chords :: "(string \<times> string) option \<Rightarrow> string list \<Rightarrow> error + (string \<times> string) list" where
  "parse_chords prev [] = Inr []"
| "parse_chords prev (chord # rest) =
     (let cur =
        (if take 2 chord = ''Ab'' then Some (''G#'', drop 3 chord)
         else if take 2 chord = ''Bb'' then Some (''A#'', drop 3 chord)
         else if take 2 chord = ''Db'' then Some (''C#'', drop 3 chord)
         else if take 2 chord = ''Eb'' then Some (''D#'', drop 3 chord)
         else if take 2 chord = ''Gb'' then Some (''F#'', drop 3 chord)
         else if CHR '' '' \<in> set chord then
           Some (takeWhile (\<lambda>c. c \<noteq> CHR '' '') chord, tl (dropWhile (\<lambda>c. c \<noteq> CHR '' '') chord))
         else prev)
      in case cur of
           None \<Rightarrow> Inl UnboundLocalError
         | Some rt \<Rightarrow> map_sum id ((#) rt) (parse_chords cur rest))"

text \<open>The index of a root name, with the flat names as alternatives.\<close>

definition alt_names :: "(string \<times> string) list" where
  "alt_names = [(''Ab'', ''G#''), (''Bb'', ''A#''), (''Db'', ''C#''), (''Eb'', ''D#''), (''Gb'', ''F#'')]"

definition root_index_of :: "string \<Rightarrow> error + nat" where
  "root_index_of root_note_name =
     (case index_of NOTE_NAMES root_note_name of
        Some i \<Rightarrow> Inr i
      | None \<Rightarrow>
          (case map_of alt_names root_note_name of
             Some n \<Rightarrow> (case index_of NOTE_NAMES n of Some i \<Rightarrow> Inr i | None \<Rightarrow> Inl NotInList)
           | None \<Rightarrow> Inl InvalidNoteName))"

text \<open>
  The chords of a key, octave by octave, in the order of the key's chord list; the
  running file counter is the position in this list. The first unknown root raises.
\<close>

fun key_chord_entries ::
    "(int \<times> string \<times> string) list \<Rightarrow> error + (string \<times> string \<times> int) list" where
  "key_chord_entries [] = Inr []"
| "key_chord_entries ((octave, root_note_name, triad_type) # rest) =
     (if too_long_to_print octave then Inl IntMaxStrDigits
      else
        (case root_index_of root_note_name of
           Inl e \<Rightarrow> Inl e
         | Inr root_index \<Rightarrow>
             map_sum id ((#) (root_note_name @ str_int octave, triad_type,
                              (octave + 2) * 12 + int root_index))
               (key_chord_entries rest)))"

definition key_all_chords ::
    "string list \<Rightarrow> int \<Rightarrow> error + (nat \<times> string \<times> string \<times> int) list" where
  "key_all_chords chords octaves =
     (case parse_chords None chords of
        Inl e \<Rightarrow> Inl e
      | Inr chord_data \<Rightarrow>
          let start_octave = 3 in
          map_sum id enumerate1
            (key_chord_entries
               (concat (map (\<lambda>octave. map (\<lambda>rt. (octave, rt)) chord_data)
                  [start_octave..start_octave + octaves - 1]))))"

text \<open>
  The report prints the number of octaves before the chords are listed, and the last
  octave, \<open>start_octave + octaves - 1\<close>, after the files are written.
\<close>

definition generate_key_chords :: "string \<Rightarrow> int \<Rightarrow> world \<Rightarrow> error option \<times> world" where
  "generate_key_chords key_signature octaves w =
     (case map_of KEY_SIGNATURES key_signature of
        None \<Rightarrow> (Some InvalidKeySignature, w)
      | Some (tonality, chords) \<Rightarrow>
          let main_output_dir = ''midi_files_ableton_triads'';
              output_dir = main_output_dir @ ''/'' @ ''key_'' @
                replace_char (CHR ''#'') ''sharp'' (replace_char (CHR '' '') ''_'' key_signature)
          in case makedirs main_output_dir w of
               Some e \<Rightarrow> (Some e, w)
             | None \<Rightarrow>
                 (case makedirs output_dir w of
                    Some e \<Rightarrow> (Some e, w)
                  | None \<Rightarrow>
                      if too_long_to_print octaves then (Some IntMaxStrDigits, w)
                      else
                        (case key_all_chords chords octaves of
                           Inl e \<Rightarrow> (Some e, w)
                         | Inr all_chords \<Rightarrow>
                             (case for_each (chord_body output_dir) all_chords w of
                                (None, w') \<Rightarrow>
                                  if too_long_to_print (3 + octaves - 1)
                                  then (Some IntMaxStrDigits, w') else (None, w')
                              | (Some e, w') \<Rightarrow> (Some e, w')))))"

section \<open>The table scripts\<close>

text \<open>
  Eleven scripts (\<open>beatmaker_notes\<close>, \<open>pianist_notes\<close>, \<open>vguitarist_notes\<close>,
  \<open>usynth_notes\<close>, \<open>playbeat_notes\<close>, \<open>s-horns_notes\<close>, \<open>drumlab_notes\<close>,
  \<open>spotlight_notes\<close>, \<open>vbassist_notes\<close>, \<open>drummer_notes\<close>, \<open>subcraft_notes\<close>) are the same
  program up to the table \<open>notes_data\<close>, the output directory, the way a note is parsed
  and the track written for a note. Nothing in them catches an exception.
\<close>

text \<open>
  Parsing by slices: \<open>note_name = file_note[:-1]\<close>, \<open>octave = int(file_note[-1])\<close>,
  \<open>note_index = note_names.index(note_name)\<close>. The result is the MIDI number.
\<close>

definition slice_parse :: "string \<Rightarrow> error + int" where
  "slice_parse file_note =
     (if file_note = [] then Inl IndexError
      else if \<not> is_digit (last file_note) then Inl InvalidLiteral
      else
        (case index_of NOTE_NAMES (butlast file_note) of
           None \<Rightarrow> Inl NotInList
         | Some note_index \<Rightarrow>
             Inr ((int (digit_val (last file_note)) + 2) * 12 + int note_index)))"

text \<open>Parsing with the anchored pattern (\<open>drumlab_notes\<close>, \<open>spotlight_notes\<close>).\<close>

definition anchored_parse :: "string \<Rightarrow> error + int" where
  "anchored_parse file_note =
     (case note_re_match_anchored file_note of
        None \<Rightarrow> Inl InvalidNoteFormat
      | Some (note_name, group2) \<Rightarrow>
          (case py_int group2 of
             Inl e \<Rightarrow> Inl e
           | Inr octave \<Rightarrow>
               (case index_of NOTE_NAMES note_name of
                  None \<Rightarrow> Inl NotInList
                | Some note_index \<Rightarrow> Inr ((octave + 2) * 12 + int note_index))))"

text \<open>The first loop: every entry of the table gets its MIDI number, or the script ends.\<close>

fun notes_with_midi ::
    "(string \<Rightarrow> error + int) \<Rightarrow> (string \<times> string) list \<Rightarrow> error + (string \<times> string \<times> int) list" where
  "notes_with_midi parse [] = Inr []"
| "notes_with_midi parse ((file_note, track_name) # rest) =
     (case parse file_note of
        Inl e \<Rightarrow> Inl e
      | Inr ableton_midi \<Rightarrow>
          map_sum id ((#) (file_note, track_name, ableton_midi)) (notes_with_midi parse rest))"

text \<open>The tracks: one note, and the two notes in a row of \<open>subcraft_notes\<close>.
  \<open>mido.bpm2tempo(120)\<close> is 500000.\<close>

definition single_note_track :: "int \<Rightarrow> string \<Rightarrow> int \<Rightarrow> event list" where
  "single_note_track note_duration track_name ableton_midi =
     [TrackName track_name 0, SetTempo 500000 0, TimeSignature 4 4 24 8 0,
      NoteOn ableton_midi 64 0, NoteOff ableton_midi 64 note_duration,
      EndOfTrack 0]"

definition double_note_track :: "int \<Rightarrow> string \<Rightarrow> int \<Rightarrow> event list" where
  "double_note_track note_duration track_name ableton_midi =
     [TrackName track_name 0, SetTempo 500000 0, TimeSignature 4 4 24 8 0,
      NoteOn ableton_midi 64 0, NoteOff ableton_midi 64 note_duration,
      NoteOn ableton_midi 64 0, NoteOff ableton_midi 64 note_duration,
      EndOfTrack 0]"

text \<open>
  The frequency \<open>440.0 * (2.0 ** ((ableton_midi - 69) / 12.0))\<close> is computed for the
  report. It raises \<open>OverflowError\<close> when the exponent reaches 1024 and when the
  difference is too large for a float.
\<close>

definition frequency_overflows :: "int \<Rightarrow> bool" where
  "frequency_overflows ableton_midi =
     (12288 \<le> ableton_midi - 69 \<or> 2 ^ 1024 - 2 ^ 970 \<le> \<bar>ableton_midi - 69\<bar>)"

text \<open>
  The second loop, over the sorted and numbered notes. The body prints the standard name
  (with the octave \<open>ableton_midi // 12 - 1\<close>) and computes the frequency before it builds
  the messages; the library refuses a note outside 0..127 when the message is built,
  before anything is written for the entry.
\<close>

definition table_body ::
    "(string \<Rightarrow> int \<Rightarrow> event list) \<Rightarrow> nat \<times> string \<times> string \<times> int \<Rightarrow> world \<Rightarrow> error option \<times> world" where
  "table_body track_of =
     (\<lambda>(file_number, file_note, track_name, ableton_midi) w.
        if too_long_to_print (ableton_midi div 12 - 1) then (Some IntMaxStrDigits, w)
        else if frequency_overflows ableton_midi then (Some OverflowError, w)
        else if 0 \<le> ableton_midi \<and> ableton_midi \<le> 127 then
          (let safe_filename = replace_char (CHR '' '') ''_'' track_name;
               filename = fmt_d 2 file_number @ '' '' @ safe_filename @ ''.mid''
           in if too_long_to_print (int file_number) then (Some IntMaxStrDigits, w)
              else
                (case mid_save filename (track_of track_name ableton_midi) w of
                   (Some e, w') \<Rightarrow> (Some e, w')
                 | (None, w') \<Rightarrow> (None, print (Created filename) w')))
        else (Some DataByteRange, w))"

definition table_script ::
    "(string \<Rightarrow> error + int) \<Rightarrow> (string \<Rightarrow> int \<Rightarrow> event list) \<Rightarrow> string \<Rightarrow> (string \<times> string) list
      \<Rightarrow> world \<Rightarrow> error option \<times> world" where
  "table_script parse track_of output_dir notes_data w =
     (case makedirs output_dir w of
        Some e \<Rightarrow> (Some e, w)
      | None \<Rightarrow>
          (case notes_with_midi parse notes_data of
             Inl e \<Rightarrow> (Some e, w)
           | Inr notes \<Rightarrow>
               let original_dir = cwd w in
               (case for_each (table_body track_of)
                       (enumerate1 (sort_key (\<lambda>(file_note, track_name, midi). midi) notes))
                       (chdir output_dir w) of
                  (None, w') \<Rightarrow> (None, w'\<lparr>cwd := original_dir\<rparr>)
                | (Some e, w') \<Rightarrow> (Some e, w'))))"

definition beatmaker_notes :: "(string \<times> string) list \<Rightarrow> world \<Rightarrow> error option \<times> world" where
  "beatmaker_notes = table_script slice_parse (single_note_track 1920) ''notes_beatmaker''"

definition pianist_notes :: "(string \<times> string) list \<Rightarrow> world \<Rightarrow> error option \<times> world" where
  "pianist_notes = table_script slice_parse (single_note_track 1920) ''notes_pianist''"

definition vguitarist_notes :: "(string \<times> string) list \<Rightarrow> world \<Rightarrow> error option \<times> world" where
  "vguitarist_notes = table_script slice_parse (single_note_track 1920) ''notes_v-guitarist''"

definition usynth_notes :: "(string \<times> string) list \<Rightarrow> world \<Rightarrow> error option \<times> world" where
  "usynth_notes = table_script slice_parse (single_note_track (8 * 480)) ''notes_usynth''"

definition playbeat_notes :: "(string \<times> string) list \<Rightarrow> world \<Rightarrow> error option \<times> world" where
  "playbeat_notes = table_script slice_parse (single_note_track (16 * 480)) ''notes_playbeat''"

definition s_horns_notes :: "(string \<times> string) list \<Rightarrow> world \<Rightarrow> error option \<times> world" where
  "s_horns_notes = table_script slice_parse (single_note_track 1920) ''notes_s-horns''"

definition drumlab_notes :: "(string \<times> string) list \<Rightarrow> world \<Rightarrow> error option \<times> world" where
  "drumlab_notes = table_script anchored_parse (single_note_track 1920) ''notes_drumlab''"

definition spotlight_notes :: "(string \<times> string) list \<Rightarrow> world \<Rightarrow> error option \<times> world" where
  "spotlight_notes = table_script anchored_parse (single_note_track 1920) ''notes_spotlight''"

definition vbassist_notes :: "(string \<times> string) list \<Rightarrow> world \<Rightarrow> error option \<times> world" where
  "vbassist_notes = table_script slice_parse (single_note_track 1920) ''notes_v-bassist''"

definition drummer_notes :: "(string \<times> string) list \<Rightarrow> world \<Rightarrow> error option \<times> world" where
  "drummer_notes = table_script slice_parse (single_note_track 1920) ''notes_drummer''"


text \<open>The table of \<open>beatmaker_notes.py\<close>.\<close>

definition beatmaker_notes_data :: "(string \<times> string) list" where
  "beatmaker_notes_data = [
     (''C#1'', ''Intro C#1''),
     (''D#1'', ''Fill D#1''),
     (''F#1'', ''Verse 1 F#1''),
     (''G#1'', ''Verse 2 G#1''),
     (''A#1'', ''Fill A#1''),
     (''C#2'', ''Chorus 1 C#2''),
     (''D#2'', ''Chorus 2 D#2''),
     (''F#2'', ''Break F#2''),
     (''G#2'', ''Special G#2''),
     (''A#2'', ''Ending A#2'')]"


section \<open>Notions used to state the properties\<close>

text \<open>The absolute tick of every event of a track.\<close>

fun abs_times :: "int \<Rightarrow> event list \<Rightarrow> int list" where
  "abs_times now [] = []"
| "abs_times now (e # es) = (now + event_time e) # abs_times (now + event_time e) es"

definition timed :: "event list \<Rightarrow> (event \<times> int) list" where
  "timed evs = zip evs (abs_times 0 evs)"

fun note_on_pitch :: "event \<Rightarrow> int option" where
  "note_on_pitch (NoteOn p _ _) = Some p"
| "note_on_pitch _ = None"

fun note_off_pitch :: "event \<Rightarrow> int option" where
  "note_off_pitch (NoteOff p _ _) = Some p"
| "note_off_pitch _ = None"

definition note_on_pitches :: "event list \<Rightarrow> int list" where
  "note_on_pitches evs = List.map_filter note_on_pitch evs"

text \<open>
  The interval patterns of the specification: the semitone offsets of the third and of
  the fifth from the root, for the triad type in lower case.
\<close>

definition spec_triad_offsets :: "string \<Rightarrow> (int \<times> int) option" where
  "spec_triad_offsets tag =
     map_of [(''major'', (4, 7)), (''minor'', (3, 7)), (''diminished'', (3, 6)),
             (''augmented'', (4, 8))] tag"

text \<open>
  The order of a track that the sequence emitter promises, for the pitches \<open>ps\<close> and the
  duration \<open>d\<close>: an optional track name, the tempo, the time signature, a note-on for
  every pitch, each with delta time 0 and at tick 0, then a note-off for every pitch in
  the same order, each at tick \<open>d\<close>, then the end of the track and nothing after it.
\<close>

fun drop_track_name :: "(event \<times> int) list \<Rightarrow> (event \<times> int) list" where
  "drop_track_name ((TrackName _ _, _) # r) = r"
| "drop_track_name r = r"

fun after_tempo_and_signature :: "(event \<times> int) list \<Rightarrow> (event \<times> int) list option" where
  "after_tempo_and_signature ((SetTempo _ _, _) # (TimeSignature _ _ _ _ _, _) # r) = Some r"
| "after_tempo_and_signature _ = None"

fun is_end_of_track :: "(event \<times> int) list \<Rightarrow> bool" where
  "is_end_of_track [(EndOfTrack _, _)] = True"
| "is_end_of_track _ = False"

definition emitter_order :: "int list \<Rightarrow> int \<Rightarrow> event list \<Rightarrow> bool" where
  "emitter_order ps d evs =
     (case after_tempo_and_signature (drop_track_name (timed evs)) of
        None \<Rightarrow> False
      | Some r \<Rightarrow>
          (let ons = takeWhile (\<lambda>(e, t). note_on_pitch e \<noteq> None) r;
               r2 = dropWhile (\<lambda>(e, t). note_on_pitch e \<noteq> None) r;
               offs = takeWhile (\<lambda>(e, t). note_off_pitch e \<noteq> None) r2;
               r3 = dropWhile (\<lambda>(e, t). note_off_pitch e \<noteq> None) r2
           in List.map_filter (note_on_pitch \<circ> fst) ons = ps
              \<and> list_all (\<lambda>(e, t). event_time e = 0 \<and> t = 0) ons
              \<and> List.map_filter (note_off_pitch \<circ> fst) offs = ps
              \<and> list_all (\<lambda>(e, t). t = d) offs
              \<and> is_end_of_track r3))"

text \<open>
  Pairing of note-ons and note-offs. The track is read from the start at tick \<open>now\<close>;
  \<open>pending\<close> holds the note-ons that are still sounding, each with its pitch and tick.
  A note-off ends the oldest sounding note-on of its pitch, which must not lie after
  it; a note-off with no sounding note-on of its pitch is unpaired, and so is a note-on
  that still sounds at the end.
\<close>

fun close_note :: "int \<Rightarrow> int \<Rightarrow> (int \<times> int) list \<Rightarrow> (int \<times> int) list option" where
  "close_note p t [] = None"
| "close_note p t ((q, t_on) # pending) =
     (if q = p then (if t_on \<le> t then Some pending else None)
      else map_option ((#) (q, t_on)) (close_note p t pending))"

fun paired_from :: "int \<Rightarrow> (int \<times> int) list \<Rightarrow> event list \<Rightarrow> bool" where
  "paired_from now pending [] = (pending = [])"
| "paired_from now pending (NoteOn p v t # es) =
     paired_from (now + t) (pending @ [(p, now + t)]) es"
| "paired_from now pending (NoteOff p v t # es) =
     (case close_note p (now + t) pending of
        None \<Rightarrow> False
      | Some pending' \<Rightarrow> paired_from (now + t) pending' es)"
| "paired_from now pending (e # es) = paired_from (now + event_time e) pending es"

definition notes_paired :: "event list \<Rightarrow> bool" where
  "notes_paired evs = paired_from 0 [] evs"

text \<open>
  Running a generator a second time: a new process in the same directory, with a new
  console, on the files that the first run left.
\<close>

definition run_twice :: "(world \<Rightarrow> error option \<times> world) \<Rightarrow> world \<Rightarrow> error option \<times> world" where
  "run_twice g w = g ((snd (g w))\<lparr>cwd := cwd w, console := console w\<rparr>)"

text \<open>
  A generator is framed when it reads nothing of the files and of the console: what it
  does to a world is what it does to the world without files and console, added to
  the files and the console that were there.
\<close>

definition blank :: "world \<Rightarrow> world" where
  "blank w = w\<lparr>files := Map.empty, console := []\<rparr>"

definition overlay :: "world \<Rightarrow> world \<Rightarrow> world" where
  "overlay w v = w\<lparr>cwd := cwd v, files := files w ++ files v, console := console w @ console v\<rparr>"

definition framed :: "(world \<Rightarrow> 'a \<times> world) \<Rightarrow> bool" where
  "framed g = (\<forall>w. g w = (case g (blank w) of (e, v) \<Rightarrow> (e, overlay w v)))"

text \<open>
  The world in which the examples run: an empty disk and console, and an operating
  system that refuses nothing.
\<close>

definition w0 :: world where
  "w0 = \<lparr>cwd = ''.'', files = Map.empty, console = [],
          save_error = (\<lambda>path. None), dir_error = (\<lambda>path. None)\<rparr>"

text \<open>Every file on disk holds a track whose notes are paired.\<close>

definition files_paired :: "world \<Rightarrow> bool" where
  "files_paired w = (\<forall>p track. files w p = Some track \<longrightarrow> notes_paired track)"

section \<open>Properties of the parsing and printing functions\<close>

lemma digit_cases: "d < 10 \<Longrightarrow> d = 0 \<or> d = 1 \<or> d = 2 \<or> d = 3 \<or> d = 4 \<or> d = 5 \<or> d = 6 \<or> d = 7 \<or> d = 8 \<or> d = (9::nat)"
  by arith

lemma is_digit_digit_char: "d < 10 \<Longrightarrow> is_digit (digit_char d)"
  using digit_cases [of d] by (auto simp: is_digit_def digit_char_def)

lemma digit_val_digit_char: "d < 10 \<Longrightarrow> digit_val (digit_char d) = d"
  using digit_cases [of d] by (auto simp: digit_val_def digit_char_def)

lemma show_nat_nonempty: "show_nat n \<noteq> []"
  by (subst show_nat.simps) simp

lemma show_nat_digits: "c \<in> set (show_nat n) \<Longrightarrow> is_digit c"
proof (induction n arbitrary: c rule: show_nat.induct)
  case (1 n)
  show ?case
  proof (cases "n < 10")
    case True
    with "1.prems" show ?thesis
      by (subst (asm) show_nat.simps) (simp add: is_digit_digit_char)
  next
    case False
    with "1.prems" have "c \<in> set (show_nat (n div 10)) \<or> c = digit_char (n mod 10)"
      by (subst (asm) show_nat.simps) auto
    with False "1.IH" show ?thesis
      by (auto simp: is_digit_digit_char)
  qed
qed

lemma nat_of_digits_snoc: "nat_of_digits (ds @ [c]) = 10 * nat_of_digits ds + digit_val c"
  by (simp add: nat_of_digits_def)

lemma nat_of_digits_show_nat: "nat_of_digits (show_nat n) = n"
proof (induction n rule: show_nat.induct)
  case (1 n)
  show ?case
  proof (cases "n < 10")
    case True
    then show ?thesis
      by (subst show_nat.simps) (simp add: nat_of_digits_def digit_val_digit_char)
  next
    case False
    with "1.IH" show ?thesis
      by (subst show_nat.simps) (simp add: nat_of_digits_snoc digit_val_digit_char)
  qed
qed

lemma show_nat_all_digits: "\<forall>c\<in>set (show_nat n). is_digit c"
  by (simp add: show_nat_digits)

lemma hd_show_nat_digit: "is_digit (hd (show_nat n))"
  using show_nat_nonempty [of n] show_nat_digits [of "hd (show_nat n)" n] by simp

lemma show_nat_small: "n < 10 \<Longrightarrow> show_nat n = [digit_char n]"
  by (subst show_nat.simps) simp

lemma not_too_long_small: "\<bar>i\<bar> < 10 \<Longrightarrow> \<not> too_long_to_print i"
  by (simp add: too_long_to_print_def show_nat_small int_max_str_digits_def)

lemma too_long_to_print_minus [simp]: "too_long_to_print (- i) = too_long_to_print i"
  by (simp add: too_long_to_print_def)

lemma py_int_str_int: "\<not> too_long_to_print i \<Longrightarrow> py_int (str_int i) = Inr i"
proof (cases "i < 0")
  case True
  assume "\<not> too_long_to_print i"
  with True show ?thesis
    by (simp add: py_int_def str_int_def nat_of_digits_show_nat too_long_to_print_def)
next
  case False
  assume n: "\<not> too_long_to_print i"
  obtain c ds where s: "show_nat (nat i) = c # ds"
    using show_nat_nonempty [of "nat i"] by (cases "show_nat (nat i)") auto
  have "is_digit c" using hd_show_nat_digit [of "nat i"] s by simp
  then have "c \<noteq> CHR ''-''" by (auto simp: is_digit_def)
  with False s n nat_of_digits_show_nat [of "nat i"] show ?thesis
    by (simp add: py_int_def str_int_def too_long_to_print_def)
qed

text \<open>The pattern on a name printed as note name and octave.\<close>

lemma opt_char_minus_str_int:
  "\<exists>sign ds. opt_char (CHR ''-'') (str_int i) = (sign, ds) \<and> sign @ ds = str_int i
      \<and> (\<forall>c\<in>set ds. is_digit c) \<and> ds \<noteq> []"
proof (cases "i < 0")
  case True
  then show ?thesis
    by (simp add: opt_char_def str_int_def show_nat_all_digits show_nat_nonempty)
next
  case False
  obtain c ds where s: "show_nat (nat i) = c # ds"
    using show_nat_nonempty [of "nat i"] by (cases "show_nat (nat i)") auto
  have "is_digit c" using hd_show_nat_digit [of "nat i"] s by simp
  then have "c \<noteq> CHR ''-''" by (auto simp: is_digit_def)
  with False s show_nat_all_digits [of "nat i"] show ?thesis
    by (simp add: opt_char_def str_int_def)
qed

lemma hd_str_int_not_sharp: "str_int i = c # r \<Longrightarrow> c \<noteq> CHR ''#''"
proof (cases "i < 0")
  case True
  assume "str_int i = c # r"
  with True show ?thesis by (auto simp: str_int_def)
next
  case False
  assume a: "str_int i = c # r"
  with False have "is_digit c" using hd_show_nat_digit [of "nat i"] by (simp add: str_int_def)
  then show ?thesis by (auto simp: is_digit_def)
qed

lemma str_int_nonempty: "str_int i \<noteq> []"
  by (simp add: str_int_def show_nat_nonempty)

lemma twelve_cases:
  "r < 12 \<Longrightarrow> r = 0 \<or> r = 1 \<or> r = 2 \<or> r = 3 \<or> r = 4 \<or> r = 5 \<or> r = 6 \<or> r = 7 \<or> r = 8 \<or> r = 9 \<or> r = 10 \<or> r = (11::nat)"
  by arith

lemma note_name_cases:
  assumes "r < 12"
  shows "\<exists>c. c \<in> set ''ABCDEFG'' \<and> (NOTE_NAMES ! r = [c] \<or> NOTE_NAMES ! r = [c, CHR ''#''])"
  using twelve_cases [OF assms] by (elim disjE) (simp_all add: NOTE_NAMES_def)

lemma index_of_NOTE_NAMES:
  assumes "r < 12"
  shows "index_of NOTE_NAMES (NOTE_NAMES ! r) = Some r"
  using twelve_cases [OF assms] by (elim disjE) (simp_all add: NOTE_NAMES_def)

lemma note_re_match_display:
  assumes "r < 12"
  shows "note_re_match (NOTE_NAMES ! r @ str_int i) = Some (NOTE_NAMES ! r, str_int i, [])"
proof -
  obtain sign ds where o: "opt_char (CHR ''-'') (str_int i) = (sign, ds)" "sign @ ds = str_int i"
      "\<forall>c\<in>set ds. is_digit c" "ds \<noteq> []"
    using opt_char_minus_str_int [of i] by blast
  have tw: "takeWhile is_digit ds = ds" "dropWhile is_digit ds = []"
    using o(3) by simp_all
  obtain c rest where s: "str_int i = c # rest" "c \<noteq> CHR ''#''"
    using str_int_nonempty [of i] hd_str_int_not_sharp [of i] by (cases "str_int i") auto
  from note_name_cases [OF assms] obtain l where l: "l \<in> set ''ABCDEFG''"
      "NOTE_NAMES ! r = [l] \<or> NOTE_NAMES ! r = [l, CHR ''#'']" by blast
  from l(2) show ?thesis
  proof
    assume n: "NOTE_NAMES ! r = [l]"
    have "opt_char (CHR ''#'') (str_int i) = ([], str_int i)"
      using s by (simp add: opt_char_def)
    with n l(1) o(1,2,4) show ?thesis
      by (simp add: note_re_match_def Let_def tw)
  next
    assume n: "NOTE_NAMES ! r = [l, CHR ''#'']"
    have "opt_char (CHR ''#'') (CHR ''#'' # str_int i) = (''#'', str_int i)"
      by (simp add: opt_char_def)
    with n l(1) o(1,2,4) show ?thesis
      by (simp add: note_re_match_def Let_def tw)
  qed
qed

lemma parse_note_display:
  "r < 12 \<Longrightarrow> \<not> too_long_to_print i \<Longrightarrow> parse_note (NOTE_NAMES ! r @ str_int i) = Inr (i, r)"
  by (simp add: parse_note_def note_re_match_display index_of_NOTE_NAMES py_int_str_int)

section \<open>Evaluation on concrete inputs\<close>

lemma bpm2tempo_120: "bpm2tempo 120 = Inr 500000"
  by (simp add: bpm2tempo_def round_half_even_def)

lemma set_tempo_500000: "set_tempo 500000 = Inr (SetTempo 500000 0)"
  by (simp add: set_tempo_def)

lemmas parse_eval = parse_note_def note_re_match_def note_re_match_anchored_def opt_char_def
  is_digit_def NOTE_NAMES_def py_int_def nat_of_digits_def digit_val_def int_max_str_digits_def

lemmas print_eval = fmt_d_def show_nat.simps digit_char_def str_int_def too_long_to_print_def
  int_max_str_digits_def

lemmas world_eval = mid_save_def print_def chdir_def w0_def


lemma not_too_long_1 [simp]: "\<not> too_long_to_print 1"
  by (simp add: not_too_long_small)

lemma no_report_error_3840:
  "duration_report_error 3840 = None" "\<not> true_div_overflows 3840 480"
  "\<not> true_div_overflows (3840 * 60) (120 * 480)" "\<not> true_div_overflows 230400 57600"
  by (simp_all add: duration_report_error_def true_div_overflows_def print_eval)

lemma parse_note_C3x: "parse_note ''C3x'' = Inr (3, 0)"
  by (simp add: parse_eval)

lemma anchored_parse_C3x: "anchored_parse ''C3x'' = Inl InvalidNoteFormat"
  by (simp add: anchored_parse_def parse_eval)

lemma midi_to_ableton_notation_60: "midi_to_ableton_notation 60 = ''C4''"
  by (simp add: midi_to_ableton_notation_def NOTE_NAMES_def print_eval)

lemma parse_note_C4: "parse_note ''C4'' = Inr (4, 0)"
  by (simp add: parse_eval)

lemma parse_note_C3: "parse_note ''C3'' = Inr (3, 0)"
  by (simp add: parse_eval)

lemma parse_note_G8: "parse_note ''G8'' = Inr (8, 7)"
  by (simp add: parse_eval)

lemma lower_Major: "lower ''Major'' = ''major''"
  by (simp add: lower_def lower_char_def)

lemma lower_tags: "lower ''Minor'' = ''minor''" "lower ''Diminished'' = ''diminished''"
    "lower ''Augmented'' = ''augmented''" "lower ''Sus4'' = ''sus4''"
  by (simp_all add: lower_def lower_char_def)


section \<open>The tracks and the create functions\<close>




lemma double_note_track_not_order: "\<not> emitter_order ps d (double_note_track d' s m)"
  by (simp add: emitter_order_def timed_def List.map_filter_simps double_note_track_def)

lemma plain_note_track_not_order:
  "\<not> emitter_order ps d (plain_note_track m d')"
  "\<not> emitter_order ps d (fix_end_of_track 0 (plain_note_track m d'))"
  by (simp_all add: emitter_order_def timed_def plain_note_track_def)

lemma note_track_paired:
  "0 \<le> d \<Longrightarrow> notes_paired [TrackName s 0, SetTempo tempo 0, TimeSignature 4 4 24 8 0,
      NoteOn m 64 0, NoteOff m 64 d, EndOfTrack 0]"
  by (simp add: notes_paired_def)

lemma chord_track_paired:
  "0 \<le> d \<Longrightarrow> notes_paired [TrackName s 0, SetTempo tempo 0, TimeSignature 4 4 24 8 0,
      NoteOn r 64 0, NoteOn t 60 0, NoteOn f 56 0,
      NoteOff r 64 d, NoteOff t 60 0, NoteOff f 56 0, EndOfTrack 0]"
  by (simp add: notes_paired_def)

lemma unpaired_example: "\<not> notes_paired [NoteOn 60 64 0, NoteOff 61 64 10]"
  by (simp add: notes_paired_def)

lemma unpaired_example2: "\<not> notes_paired [NoteOff 60 64 0, NoteOn 60 64 10]"
  by (simp add: notes_paired_def)

lemma unpaired_example3: "\<not> notes_paired [NoteOn 60 64 0, NoteOff 60 64 (- 10)]"
  by (simp add: notes_paired_def)

text \<open>What the library writes for the tracks of the generators, and when it refuses them.\<close>

lemma written_note_track:
  "fix_end_of_track 0 [TrackName s 0, SetTempo tempo 0, TimeSignature 4 4 24 8 0,
      NoteOn m 64 0, NoteOff m 64 d, EndOfTrack 0]
   = [TrackName s 0, SetTempo tempo 0, TimeSignature 4 4 24 8 0,
      NoteOn m 64 0, NoteOff m 64 d, EndOfTrack 0]"
  by simp

lemma written_chord_track:
  "fix_end_of_track 0 [TrackName s 0, SetTempo tempo 0, TimeSignature 4 4 24 8 0,
      NoteOn r 64 0, NoteOn t 60 0, NoteOn f 56 0,
      NoteOff r 64 d, NoteOff t 60 0, NoteOff f 56 0, EndOfTrack 0]
   = [TrackName s 0, SetTempo tempo 0, TimeSignature 4 4 24 8 0,
      NoteOn r 64 0, NoteOn t 60 0, NoteOn f 56 0,
      NoteOff r 64 d, NoteOff t 60 0, NoteOff f 56 0, EndOfTrack 0]"
  by simp

lemma written_plain_note_track:
  "fix_end_of_track 0 (plain_note_track m d) = [NoteOn m 64 0, NoteOff m 64 d, EndOfTrack 0]"
  by (simp add: plain_note_track_def)


lemma written_double_note_track:
  "fix_end_of_track 0 (double_note_track d s m) = double_note_track d s m"
  by (simp add: double_note_track_def)




lemma create_chord_triad_midi_ok:
  assumes "parse_note root = Inr (oct, i)"
    and "triad_notes ((oct + 2) * 12 + int i) ty = Inr (t, f)"
    and "0 \<le> (oct + 2) * 12 + int i" and "(oct + 2) * 12 + int i \<le> 127"
    and "0 \<le> t" and "t \<le> 127" and "0 \<le> f" and "f \<le> 127"
    and "bpm2tempo bpm = Inr tempo" and "0 \<le> tempo" and "tempo \<le> 16777215"
    and "\<not> too_long_to_print (int n)"
    and "save_error w (cwd w @ ''/'' @ fmt_d 3 n @ '' '' @ root @ '' '' @ ty @ ''.mid'') = None"
    and "0 \<le> d" and "\<not> true_div_overflows d 480"
    and "\<not> true_div_overflows (d * 60) (bpm * 480)"
  shows "create_chord_triad_midi root ty n d bpm w =
     (Inr [TrackName (root @ '' '' @ ty) 0, SetTempo tempo 0, TimeSignature 4 4 24 8 0,
           NoteOn ((oct + 2) * 12 + int i) 64 0, NoteOn t 60 0, NoteOn f 56 0,
           NoteOff ((oct + 2) * 12 + int i) 64 d, NoteOff t 60 0, NoteOff f 56 0,
           EndOfTrack 0],
      print (Created (fmt_d 3 n @ '' '' @ root @ '' '' @ ty @ ''.mid''))
        (w\<lparr>files := (files w)(cwd w @ ''/'' @ fmt_d 3 n @ '' '' @ root @ '' '' @ ty @ ''.mid'' \<mapsto>
           [TrackName (root @ '' '' @ ty) 0, SetTempo tempo 0, TimeSignature 4 4 24 8 0,
            NoteOn ((oct + 2) * 12 + int i) 64 0, NoteOn t 60 0, NoteOn f 56 0,
            NoteOff ((oct + 2) * 12 + int i) 64 d, NoteOff t 60 0, NoteOff f 56 0,
            EndOfTrack 0])\<rparr>))"
  using assms by (simp add: create_chord_triad_midi_def Let_def set_tempo_def mid_save_def)

lemma create_chord_triad_midi_out_of_range:
  assumes "parse_note root = Inr (oct, i)"
    and "triad_notes ((oct + 2) * 12 + int i) ty = Inr (t, f)"
    and "(oct + 2) * 12 + int i < 0 \<or> 127 < (oct + 2) * 12 + int i \<or> t < 0 \<or> 127 < t
         \<or> f < 0 \<or> 127 < f"
  shows "create_chord_triad_midi root ty n d bpm w = (Inl OutOfRange, w)"
  using assms by (auto simp: create_chord_triad_midi_def Let_def)

lemma create_chord_triad_midi_invalid_type:
  assumes "parse_note root = Inr (oct, i)"
    and "lower ty \<notin> {''major'', ''minor'', ''diminished'', ''augmented''}"
  shows "create_chord_triad_midi root ty n d bpm w = (Inl InvalidTriadType, w)"
  using assms by (simp add: create_chord_triad_midi_def triad_notes_def Let_def)

lemma create_note_midi_ableton_final_out_of_range:
  assumes "parse_note name = Inr (oct, i)"
    and "(oct + 2) * 12 + int i < 0 \<or> 127 < (oct + 2) * 12 + int i"
  shows "create_note_midi_ableton_final name n d bpm w =
           (Inl (out_of_range ((oct + 2) * 12 + int i)), w)"
  using assms by (auto simp: create_note_midi_ableton_final_def Let_def)

lemma create_note_midi_standard_out_of_range:
  assumes "parse_note name = Inr (oct, i)"
    and "(oct + 1) * 12 + int i < 0 \<or> 127 < (oct + 1) * 12 + int i"
  shows "create_note_midi_standard name n d bpm w =
           (Inl (out_of_range ((oct + 1) * 12 + int i)), w)"
  using assms by (auto simp: create_note_midi_standard_def Let_def)

lemma is_ValueError_out_of_range [simp]: "is_ValueError (out_of_range m)"
  by (simp add: out_of_range_def)


section \<open>C3: the chord builder\<close>

lemma spec_triad_offsets_Some:
  "spec_triad_offsets (lower ty) = Some (a, b) \<Longrightarrow>
     triad_notes r ty = Inr (r + a, r + b) \<and> 0 < a \<and> a < b"
  by (auto simp: spec_triad_offsets_def triad_notes_def split: if_splits)

lemma spec_triad_offsets_None:
  "spec_triad_offsets (lower ty) = None \<Longrightarrow>
     lower ty \<notin> {''major'', ''minor'', ''diminished'', ''augmented''}"
  by (auto simp: spec_triad_offsets_def split: if_splits)

text \<open>
  Claim C3, as amended. Let the root name parse to the pitch \<open>r\<close> under the +2 formula,
  and let the triad type, compared without regard to case, be one of the four of the
  specification, with the offsets \<open>a\<close> and \<open>b\<close> of the third and the fifth: 4, 7 for
  major, 3, 7 for minor, 3, 6 for diminished and 4, 8 for augmented.

  \<^item> If \<open>r\<close> and the fifth \<open>r + b\<close> lie in 0..127, the chord builder returns a track whose
    note-ons are \<open>r\<close>, \<open>r + a\<close>, \<open>r + b\<close>, in this order, provided that nothing else stops
    it: the tempo computed from \<open>bpm\<close> fits 24 bits, the file number can be printed, the
    file can be opened, the duration is not negative, and the duration in bars and in
    seconds can be computed.
  \<^item> If \<open>r\<close> is negative or the fifth is above 127, the builder raises the out-of-range
    error and leaves the world as it was.

  If the triad type is none of the four, the builder raises the invalid-triad-type error
  and leaves the world as it was.
\<close>

theorem C3_triad_pitches:
  assumes "parse_note root = Inr (oct, i)" and "r = (oct + 2) * 12 + int i"
  shows "(spec_triad_offsets (lower ty) = Some (a, b) \<and> 0 \<le> r \<and> r + b \<le> 127
            \<and> bpm2tempo bpm = Inr tempo \<and> 0 \<le> tempo \<and> tempo \<le> 16777215
            \<and> \<not> too_long_to_print (int n)
            \<and> save_error w (cwd w @ ''/'' @ fmt_d 3 n @ '' '' @ root @ '' '' @ ty @ ''.mid'') = None
            \<and> 0 \<le> d \<and> \<not> true_div_overflows d 480
            \<and> \<not> true_div_overflows (d * 60) (bpm * 480)
          \<longrightarrow> map_sum id note_on_pitches (fst (create_chord_triad_midi root ty n d bpm w))
                = Inr [r, r + a, r + b])
       \<and> (spec_triad_offsets (lower ty) = Some (a, b) \<and> (r < 0 \<or> 127 < r + b)
          \<longrightarrow> create_chord_triad_midi root ty n d bpm w = (Inl OutOfRange, w))
       \<and> (spec_triad_offsets (lower ty) = None
          \<longrightarrow> create_chord_triad_midi root ty n d bpm w = (Inl InvalidTriadType, w))"
proof (intro conjI impI)
  assume a: "spec_triad_offsets (lower ty) = Some (a, b) \<and> 0 \<le> r \<and> r + b \<le> 127
            \<and> bpm2tempo bpm = Inr tempo \<and> 0 \<le> tempo \<and> tempo \<le> 16777215
            \<and> \<not> too_long_to_print (int n)
            \<and> save_error w (cwd w @ ''/'' @ fmt_d 3 n @ '' '' @ root @ '' '' @ ty @ ''.mid'') = None
            \<and> 0 \<le> d \<and> \<not> true_div_overflows d 480
            \<and> \<not> true_div_overflows (d * 60) (bpm * 480)"
  then have t: "triad_notes ((oct + 2) * 12 + int i) ty = Inr (r + a, r + b)" and ab: "0 < a" "a < b"
    using spec_triad_offsets_Some [of ty a b r] assms(2) by simp_all
  from a ab assms(2) have r: "0 \<le> (oct + 2) * 12 + int i" "(oct + 2) * 12 + int i \<le> 127"
      "0 \<le> r + a" "r + a \<le> 127" "0 \<le> r + b" "r + b \<le> 127"
    by simp_all
  from a have e: "bpm2tempo bpm = Inr tempo" "0 \<le> tempo" "tempo \<le> 16777215"
      "\<not> too_long_to_print (int n)"
      "save_error w (cwd w @ ''/'' @ fmt_d 3 n @ '' '' @ root @ '' '' @ ty @ ''.mid'') = None"
      "0 \<le> d" "\<not> true_div_overflows d 480" "\<not> true_div_overflows (d * 60) (bpm * 480)"
    by simp_all
  show "map_sum id note_on_pitches (fst (create_chord_triad_midi root ty n d bpm w))
          = Inr [r, r + a, r + b]"
    unfolding create_chord_triad_midi_ok [OF assms(1) t r e]
    by (simp add: note_on_pitches_def List.map_filter_simps assms(2))
next
  assume a: "spec_triad_offsets (lower ty) = Some (a, b) \<and> (r < 0 \<or> 127 < r + b)"
  then have t: "triad_notes ((oct + 2) * 12 + int i) ty = Inr (r + a, r + b)"
    using spec_triad_offsets_Some [of ty a b r] assms(2) by simp
  from a assms(2) have "(oct + 2) * 12 + int i < 0 \<or> 127 < (oct + 2) * 12 + int i \<or> r + a < 0
      \<or> 127 < r + a \<or> r + b < 0 \<or> 127 < r + b"
    by auto
  then show "create_chord_triad_midi root ty n d bpm w = (Inl OutOfRange, w)"
    by (rule create_chord_triad_midi_out_of_range [OF assms(1) t])
next
  assume "spec_triad_offsets (lower ty) = None"
  then have "lower ty \<notin> {''major'', ''minor'', ''diminished'', ''augmented''}"
    by (rule spec_triad_offsets_None)
  then show "create_chord_triad_midi root ty n d bpm w = (Inl InvalidTriadType, w)"
    by (rule create_chord_triad_midi_invalid_type [OF assms(1)])
qed

text \<open>
  The instances at the root C3 = 60, at the root G8 = 127, and with a type that is not a
  triad type.
\<close>

lemma spec_triad_offsets_eval:
  "spec_triad_offsets ''major'' = Some (4, 7)" "spec_triad_offsets ''minor'' = Some (3, 7)"
  "spec_triad_offsets ''diminished'' = Some (3, 6)" "spec_triad_offsets ''augmented'' = Some (4, 8)"
  "spec_triad_offsets ''sus4'' = None"
  by (simp_all add: spec_triad_offsets_def)

lemma save_error_w0 [simp]: "save_error w0 p = None"
  by (simp add: w0_def)

theorem C3_triad_pitches_witness:
  "map_sum id note_on_pitches (fst (create_chord_triad_midi ''C3'' ''Major'' 1 3840 120 w0))
     = Inr [60, 64, 67]
   \<and> map_sum id note_on_pitches (fst (create_chord_triad_midi ''C3'' ''Minor'' 1 3840 120 w0))
     = Inr [60, 63, 67]
   \<and> map_sum id note_on_pitches (fst (create_chord_triad_midi ''C3'' ''Diminished'' 1 3840 120 w0))
     = Inr [60, 63, 66]
   \<and> map_sum id note_on_pitches (fst (create_chord_triad_midi ''C3'' ''Augmented'' 1 3840 120 w0))
     = Inr [60, 64, 68]
   \<and> create_chord_triad_midi ''G8'' ''Minor'' 1 3840 120 w0 = (Inl OutOfRange, w0)
   \<and> create_chord_triad_midi ''C3'' ''Sus4'' 1 3840 120 w0 = (Inl InvalidTriadType, w0)"
  using C3_triad_pitches [OF parse_note_C3, where r = 60 and ty = "''Major''" and a = 4 and b = 7
      and bpm = 120 and tempo = 500000 and n = 1 and d = 3840 and w = w0]
    C3_triad_pitches [OF parse_note_C3, where r = 60 and ty = "''Minor''" and a = 3 and b = 7
      and bpm = 120 and tempo = 500000 and n = 1 and d = 3840 and w = w0]
    C3_triad_pitches [OF parse_note_C3, where r = 60 and ty = "''Diminished''" and a = 3 and b = 6
      and bpm = 120 and tempo = 500000 and n = 1 and d = 3840 and w = w0]
    C3_triad_pitches [OF parse_note_C3, where r = 60 and ty = "''Augmented''" and a = 4 and b = 8
      and bpm = 120 and tempo = 500000 and n = 1 and d = 3840 and w = w0]
    C3_triad_pitches [OF parse_note_G8, where r = 127 and ty = "''Minor''" and a = 3 and b = 7
      and bpm = 120 and n = 1 and d = 3840 and w = w0]
    C3_triad_pitches [OF parse_note_C3, where r = 60 and ty = "''Sus4''"
      and bpm = 120 and n = 1 and d = 3840 and w = w0]
  by (simp add: lower_Major lower_tags spec_triad_offsets_eval bpm2tempo_120 no_report_error_3840)

text \<open>
  The claim as it was stated, for every root in 0..127, fails at the root G8 = 127: the
  third and the fifth of its major triad would be 131 and 134, and the builder raises
  the out-of-range error.
\<close>

theorem C3_counterexample:
  "parse_note ''G8'' = Inr (8, 7) \<and> (8 + 2) * 12 + int 7 = 127
   \<and> create_chord_triad_midi ''G8'' ''Major'' 1 3840 120 w0 = (Inl OutOfRange, w0)"
  by (simp add: parse_note_G8 create_chord_triad_midi_def triad_notes_def lower_Major)

section \<open>C1: display names and their pitch\<close>

lemma parse_note_display_name:
  assumes "0 \<le> m" and "m \<le> 127" and "k = 1 \<or> k = 2"
  shows "parse_note (NOTE_NAMES ! nat (m mod 12) @ str_int (m div 12 - k))
     = Inr (m div 12 - k, nat (m mod 12))"
proof (rule parse_note_display)
  show "nat (m mod 12) < 12" by simp
  from assms have "\<bar>m div 12 - k\<bar> < 10" by auto
  then show "\<not> too_long_to_print (m div 12 - k)" by (rule not_too_long_small)
qed

lemma div_mod_12: "(m div 12 - k + k) * 12 + int (nat (m mod 12)) = (m::int)"
  by simp

text \<open>
  In \<open>create_notes.py\<close> each convention inverts the other function's display name: the
  Ableton parser (+2) reads the name printed with -2, the standard parser (+1) the name
  printed with -1.
\<close>

lemma ableton_final_reads_ableton_display:
  assumes "0 \<le> m" and "m \<le> 127"
  shows "\<exists>oct i. parse_note (ableton_display m) = Inr (oct, i) \<and> (oct + 2) * 12 + int i = m"
  unfolding ableton_display_def parse_note_display_name [OF assms, of 2, simplified]
  by simp

lemma standard_reads_standard_name:
  assumes "0 \<le> m" and "m \<le> 127"
  shows "\<exists>oct i. parse_note (standard_name m) = Inr (oct, i) \<and> (oct + 1) * 12 + int i = m"
  unfolding standard_name_def parse_note_display_name [OF assms, of 1, simplified]
  by simp

text \<open>
  In \<open>create_chords.py\<close> the name printed by \<open>midi_to_standard_notation\<close> (-2) is read
  back by the chord builder (+2) as the same pitch, and the name printed by
  \<open>midi_to_ableton_notation\<close> (-1) as the pitch an octave above.
\<close>

lemma chord_root_of_standard_notation:
  assumes "0 \<le> m" and "m \<le> 127"
  shows "\<exists>oct i. parse_note (midi_to_standard_notation m) = Inr (oct, i)
           \<and> (oct + 2) * 12 + int i = m"
  unfolding midi_to_standard_notation_def parse_note_display_name [OF assms, of 2, simplified]
  by simp

lemma chord_root_of_ableton_notation:
  assumes "0 \<le> m" and "m \<le> 127"
  shows "\<exists>oct i. parse_note (midi_to_ableton_notation m) = Inr (oct, i)
           \<and> (oct + 2) * 12 + int i = m + 12"
  unfolding midi_to_ableton_notation_def parse_note_display_name [OF assms, of 1, simplified]
  by simp

text \<open>
  Claim C1 at the pitch 60, for the Ableton convention of \<open>create_chords.py\<close>:
  \<open>midi_to_ableton_notation\<close> prints 60 as C4, and the chord builder, which reads names
  with the Ableton formula \<open>(octave + 2) * 12 + index\<close>, builds the major triad of C4 on
  72, not on 60. The display name does not parse back to the pitch it was printed for.
\<close>

theorem C1_ableton_notation_not_inverse:
  "midi_to_ableton_notation 60 = ''C4''
   \<and> map_sum id note_on_pitches
        (fst (create_chord_triad_midi (midi_to_ableton_notation 60) ''Major'' 1 3840 120 w0))
      = Inr [72, 76, 79]"
  by (simp add: midi_to_ableton_notation_60 parse_note_C4 lower_Major create_chord_triad_midi_def
        triad_notes_def bpm2tempo_120 set_tempo_500000 note_on_pitches_def List.map_filter_simps
        Let_def mid_save_def no_report_error_3840)

section \<open>C5: names with trailing characters\<close>

text \<open>
  Claim C5 at the input C3x. The pattern of \<open>create_note_midi_ableton_final\<close> is matched
  at the start of the name only, so the name is accepted as C3: the function writes the
  file "01 C3x.mid" with the note 60 and reports it. The anchored pattern of
  \<open>spotlight_notes\<close> and \<open>drumlab_notes\<close> rejects the same name with the invalid-format
  error.
\<close>

theorem C5_trailing_characters_accepted:
  "(case create_note_midi_ableton_final ''C3x'' 1 3840 120 w0 of
      (r, w') \<Rightarrow> (r, files w' ''./01 C3x.mid'', console w'))
   = (Inr [TrackName ''Note C3x'' 0, SetTempo 500000 0, TimeSignature 4 4 24 8 0,
           NoteOn 60 64 0, NoteOff 60 64 3840, EndOfTrack 0],
      Some [TrackName ''Note C3x'' 0, SetTempo 500000 0, TimeSignature 4 4 24 8 0,
           NoteOn 60 64 0, NoteOff 60 64 3840, EndOfTrack 0],
      [Created ''01 C3x.mid''])
   \<and> anchored_parse ''C3x'' = Inl InvalidNoteFormat"
  by (simp add: create_note_midi_ableton_final_def parse_note_C3x anchored_parse_C3x print_eval
        bpm2tempo_120 set_tempo_500000 world_eval Let_def no_report_error_3840)


section \<open>C6: the order of the events\<close>






lemma double_note_track_times:
  "0 \<le> d \<Longrightarrow> \<forall>msg \<in> set (fix_end_of_track 0 (double_note_track d s m)). 0 \<le> event_time msg"
  by (simp add: double_note_track_def)













section \<open>Loops\<close>

lemma for_each_append:
  "for_each body (xs @ ys) w =
     (case for_each body xs w of
        (None, w') \<Rightarrow> for_each body ys w'
      | (Some e, w') \<Rightarrow> (Some e, w'))"
  by (induction xs arbitrary: w) (auto split: prod.splits option.splits)

lemma for_each_preserves:
  assumes "\<And>x w. P w \<Longrightarrow> P (snd (body x w))" and "P w"
  shows "P (snd (for_each body xs w))"
  using assms(2)
proof (induction xs arbitrary: w)
  case Nil
  then show ?case by simp
next
  case (Cons x xs)
  obtain e w' where b: "body x w = (e, w')" by (cases "body x w")
  with assms(1) [OF Cons.prems, of x] have "P w'" by simp
  with Cons.IH b show ?case
    by (cases e) simp_all
qed

section \<open>C7: note-ons and note-offs are paired\<close>

lemma files_paired_print [simp]: "files_paired (print n w) = files_paired w"
  by (simp add: files_paired_def print_def)

lemma files_paired_chdir [simp]: "files_paired (chdir d w) = files_paired w"
  by (simp add: files_paired_def chdir_def)

lemma files_paired_cwd [simp]: "files_paired (w\<lparr>cwd := c\<rparr>) = files_paired w"
  by (simp add: files_paired_def)

lemma files_paired_mid_save:
  assumes "(\<forall>msg \<in> set (fix_end_of_track 0 track). 0 \<le> event_time msg)
      \<Longrightarrow> notes_paired (fix_end_of_track 0 track)"
    and "files_paired w"
  shows "files_paired (snd (mid_save filename track w))"
proof (cases "save_error w (cwd w @ ''/'' @ filename)")
  case (Some e)
  with assms(2) show ?thesis by (simp add: mid_save_def)
next
  case None
  show ?thesis
  proof (cases "\<exists>msg \<in> set (fix_end_of_track 0 track). event_time msg < 0")
    case True
    with None assms(2) show ?thesis
      by (simp add: mid_save_def Let_def files_paired_def notes_paired_def)
  next
    case False
    then have "notes_paired (fix_end_of_track 0 track)"
      by (intro assms(1)) (auto simp: not_less)
    with None False assms(2) show ?thesis
      by (simp add: mid_save_def Let_def files_paired_def)
  qed
qed

lemma files_paired_save_note:
  "files_paired w \<Longrightarrow>
     files_paired (snd (mid_save filename
       [TrackName s 0, SetTempo tempo 0, TimeSignature 4 4 24 8 0,
        NoteOn m 64 0, NoteOff m 64 d, EndOfTrack 0] w))"
  by (rule files_paired_mid_save) (simp_all add: note_track_paired)

lemma files_paired_save_chord:
  "files_paired w \<Longrightarrow>
     files_paired (snd (mid_save filename
       [TrackName s 0, SetTempo tempo 0, TimeSignature 4 4 24 8 0,
        NoteOn r 64 0, NoteOn t 60 0, NoteOn f 56 0,
        NoteOff r 64 d, NoteOff t 60 0, NoteOff f 56 0, EndOfTrack 0] w))"
  by (rule files_paired_mid_save) (simp_all add: chord_track_paired)

lemma files_paired_save_plain:
  "files_paired w \<Longrightarrow> files_paired (snd (mid_save filename (plain_note_track m d) w))"
  by (rule files_paired_mid_save) (simp_all add: plain_note_track_def notes_paired_def)

lemma files_paired_save_single:
  "files_paired w \<Longrightarrow> files_paired (snd (mid_save filename (single_note_track d s m) w))"
  by (rule files_paired_mid_save) (simp_all add: single_note_track_def notes_paired_def)

lemma files_paired_save_double:
  "files_paired w \<Longrightarrow> files_paired (snd (mid_save filename (double_note_track d s m) w))"
  by (rule files_paired_mid_save) (simp_all add: double_note_track_def notes_paired_def)

lemma files_paired_save_noteD:
  "mid_save filename [TrackName s 0, SetTempo tempo 0, TimeSignature 4 4 24 8 0,
        NoteOn m 64 0, NoteOff m 64 d, EndOfTrack 0] w = (e, w')
   \<Longrightarrow> files_paired w \<Longrightarrow> files_paired w'"
  using files_paired_save_note [of w filename s tempo m d] by simp

lemma files_paired_save_chordD:
  "mid_save filename [TrackName s 0, SetTempo tempo 0, TimeSignature 4 4 24 8 0,
        NoteOn r 64 0, NoteOn t 60 0, NoteOn f 56 0,
        NoteOff r 64 d, NoteOff t 60 0, NoteOff f 56 0, EndOfTrack 0] w = (e, w')
   \<Longrightarrow> files_paired w \<Longrightarrow> files_paired w'"
  using files_paired_save_chord [of w filename s tempo r t f d] by simp

lemma files_paired_save_plainD:
  "mid_save filename (plain_note_track m d) w = (e, w') \<Longrightarrow> files_paired w \<Longrightarrow> files_paired w'"
  using files_paired_save_plain [of w filename m d] by simp

lemma create_note_midi_ableton_final_paired:
  assumes "files_paired w"
  shows "files_paired (snd (create_note_midi_ableton_final name n d bpm w))"
  using assms
  by (auto simp: create_note_midi_ableton_final_def Let_def set_tempo_def
        split: sum.splits option.splits prod.splits dest: files_paired_save_noteD)

lemma create_note_midi_standard_paired:
  assumes "files_paired w"
  shows "files_paired (snd (create_note_midi_standard name n d bpm w))"
  using assms
  by (auto simp: create_note_midi_standard_def Let_def set_tempo_def
        split: sum.splits option.splits prod.splits dest: files_paired_save_noteD)

lemma create_chord_triad_midi_paired:
  assumes "files_paired w"
  shows "files_paired (snd (create_chord_triad_midi root ty n d bpm w))"
  using assms
  by (auto simp: create_chord_triad_midi_def Let_def set_tempo_def
        split: sum.splits option.splits prod.splits dest: files_paired_save_chordD)

lemma create_plain_note_paired:
  assumes "files_paired w"
  shows "files_paired (snd (create_plain_note name n m d w))"
  using assms
  by (auto simp: create_plain_note_def Let_def split: option.splits prod.splits
        dest: files_paired_save_plainD)

lemma except_ValueError_paired:
  "files_paired (snd r) \<Longrightarrow> files_paired (snd (except_ValueError label r))"
  by (auto simp: except_ValueError_def split: prod.splits sum.splits)

lemma in_output_dir_paired:
  assumes "\<And>w1. files_paired w1 \<Longrightarrow> files_paired (snd (guarded w1))" and "files_paired w"
  shows "files_paired (snd (in_output_dir dir label guarded w))"
proof -
  have "files_paired (snd (except_ValueError label (guarded (chdir dir w))))"
    using assms by (intro except_ValueError_paired) simp
  then show ?thesis
    by (auto simp: in_output_dir_def Let_def split: prod.splits option.splits)
qed

lemma ableton_range_body_paired:
  assumes "files_paired w"
  shows "files_paired (snd (ableton_range_body dir tn d x w))"
proof -
  obtain n name m where x: "x = (n, name, m)" by (cases x)
  show ?thesis
    unfolding x ableton_range_body_def prod.case
    by (rule in_output_dir_paired [OF _ assms])
      (simp add: create_note_midi_ableton_final_paired create_plain_note_paired)
qed

lemma standard_range_body_paired:
  assumes "files_paired w"
  shows "files_paired (snd (standard_range_body dir d x w))"
proof -
  obtain n name m where x: "x = (n, name, m)" by (cases x)
  show ?thesis
    unfolding x standard_range_body_def prod.case
    by (rule in_output_dir_paired [OF _ assms]) (simp add: create_note_midi_standard_paired)
qed

lemma chord_body_paired:
  assumes "files_paired w"
  shows "files_paired (snd (chord_body dir x w))"
proof -
  obtain n root ty m where x: "x = (n, root, ty, m)" by (cases x)
  show ?thesis
    unfolding x chord_body_def prod.case
    by (rule in_output_dir_paired [OF _ assms]) (simp add: create_chord_triad_midi_paired)
qed

lemma middle_c_body_paired:
  assumes "files_paired w"
  shows "files_paired (snd (middle_c_body d x w))"
proof -
  obtain n name m where x: "x = (n, name, m)" by (cases x)
  show ?thesis
    unfolding x middle_c_body_def prod.case
    using assms
    by (intro except_ValueError_paired)
      (auto simp: Let_def split: prod.splits option.splits dest: files_paired_save_noteD)
qed

lemma table_body_paired:
  assumes "\<And>filename s m w. files_paired w \<Longrightarrow> files_paired (snd (mid_save filename (track_of s m) w))"
    and "files_paired w"
  shows "files_paired (snd (table_body track_of x w))"
proof -
  obtain n fnote name m where x: "x = (n, fnote, name, m)" by (cases x)
  have "mid_save filename (track_of s m) w = (e, w') \<Longrightarrow> files_paired w'" for filename s m e w'
    using assms(1) [OF assms(2), of filename s m] by simp
  then show ?thesis
    unfolding x table_body_def using assms(2)
    by (auto simp: Let_def split: prod.splits option.splits)
qed

lemma generate_ableton_range_paired:
  "files_paired w \<Longrightarrow> files_paired (snd (generate_ableton_range s e tn d w))"
  unfolding generate_ableton_range_def
  by (auto split: sum.splits prod.splits option.splits simp: Let_def
        intro!: for_each_preserves ableton_range_body_paired)

lemma generate_standard_range_paired:
  "files_paired w \<Longrightarrow> files_paired (snd (generate_standard_range s e d w))"
  unfolding generate_standard_range_def
  by (auto split: sum.splits prod.splits option.splits simp: Let_def
        intro!: for_each_preserves standard_range_body_paired)

lemma generate_middle_c_range_paired:
  assumes "files_paired w"
  shows "files_paired (snd (generate_middle_c_range d w))"
proof -
  let ?r = "for_each (middle_c_body d) (enumerate1 (sort_key snd middle_c_notes))
      (chdir ''middle_c_range_sequential'' w)"
  have "files_paired (snd ?r)"
    by (rule for_each_preserves) (simp_all add: middle_c_body_paired assms)
  with assms show ?thesis
    by (cases ?r) (auto simp: generate_middle_c_range_def Let_def split: option.splits)
qed

lemma chord_loop_paired:
  "files_paired w \<Longrightarrow> files_paired (snd (for_each (chord_body dir) xs w))"
  by (rule for_each_preserves) (simp_all add: chord_body_paired)

lemma chord_loop_pairedD:
  "for_each (chord_body dir) xs w = (e, w') \<Longrightarrow> files_paired w \<Longrightarrow> files_paired w'"
  using chord_loop_paired [of w dir xs] by simp

lemma generate_chord_triads_range_paired:
  assumes "files_paired w"
  shows "files_paired (snd (generate_chord_triads_range s e w))"
  using assms
  unfolding generate_chord_triads_range_def
  by (auto split: sum.splits prod.splits option.splits simp: Let_def dest: chord_loop_pairedD)

lemma generate_key_chords_paired:
  assumes "files_paired w"
  shows "files_paired (snd (generate_key_chords k oc w))"
  using assms
  unfolding generate_key_chords_def
  by (auto split: sum.splits prod.splits option.splits simp: Let_def dest: chord_loop_pairedD)

lemma table_script_paired:
  assumes "\<And>filename s m w. files_paired w \<Longrightarrow> files_paired (snd (mid_save filename (track_of s m) w))"
    and "files_paired w"
  shows "files_paired (snd (table_script parse track_of dir data w))"
proof (cases "makedirs dir w")
  case (Some e)
  with assms(2) show ?thesis by (simp add: table_script_def)
next
  case None
  show ?thesis
  proof (cases "notes_with_midi parse data")
    case (Inl e)
    with None assms(2) show ?thesis by (simp add: table_script_def)
  next
    case (Inr ns)
    let ?r = "for_each (table_body track_of)
       (enumerate1 (sort_key (\<lambda>(file_note, track_name, midi). midi) ns)) (chdir dir w)"
    have "files_paired (snd ?r)"
      by (rule for_each_preserves) (simp_all add: table_body_paired assms)
    with None Inr show ?thesis
      by (cases ?r) (auto simp: table_script_def Let_def split: option.splits)
  qed
qed

text \<open>A run of \<open>beatmaker_notes\<close> on a table of two notes, the higher one first.\<close>

lemma slice_parse_Cs1: "slice_parse ''C#1'' = Inr 37"
  by (simp add: slice_parse_def parse_eval)

lemma slice_parse_As2: "slice_parse ''A#2'' = Inr 58"
  by (simp add: slice_parse_def parse_eval)

lemma beatmaker_two_notes:
  "beatmaker_notes [(''A#2'', ''Ending A#2''), (''C#1'', ''Intro C#1'')] w0 =
     (None, w0\<lparr>files := [''./notes_beatmaker/01 Intro_C#1.mid'' \<mapsto> single_note_track 1920 ''Intro C#1'' 37,
                      ''./notes_beatmaker/02 Ending_A#2.mid'' \<mapsto> single_note_track 1920 ''Ending A#2'' 58],
             console := [Created ''01 Intro_C#1.mid'', Created ''02 Ending_A#2.mid'']\<rparr>)"
  by (simp add: beatmaker_notes_def table_script_def makedirs_def slice_parse_Cs1 slice_parse_As2
        enumerate1_def table_body_def frequency_overflows_def replace_char_def
        single_note_track_def print_eval world_eval Let_def)

lemma files_paired_w0: "files_paired w0"
  by (simp add: files_paired_def w0_def)

text \<open>
  Claim C7. Whatever a generator writes is paired: if every track on disk has each
  note-on followed by exactly one note-off of its pitch, no earlier than the note-on,
  and no note-on or note-off without partner, then the same holds after a run of any
  range driver (\<open>generate_middle_c_range\<close> among them), of either chord driver, and of
  any table script, with the single-note track or with the double-note track of
  \<open>subcraft_notes\<close>, and after a call of any of the three create functions. Started on
  an empty disk, a generator therefore leaves only paired tracks. The duration is any
  integer: a track whose note-off would lie before its note-on is refused by the
  library when the file is written.
\<close>

theorem C7_notes_paired:
  assumes "files_paired w"
  shows "(g \<in> {generate_ableton_range s e tn d, generate_standard_range s e d,
               generate_middle_c_range d,
               generate_chord_triads_range s e, generate_key_chords k oc,
               table_script parse (single_note_track dur) dir notes_data,
               table_script parse (double_note_track dur) dir notes_data}
          \<longrightarrow> files_paired (snd (g w)))
       \<and> files_paired (snd (create_note_midi_ableton_final name n d bpm w))
       \<and> files_paired (snd (create_note_midi_standard name n d bpm w))
       \<and> files_paired (snd (create_chord_triad_midi name ty n d bpm w))"
  using assms
  by (auto intro: generate_ableton_range_paired generate_standard_range_paired
        generate_middle_c_range_paired
        generate_chord_triads_range_paired generate_key_chords_paired
        table_script_paired files_paired_save_single files_paired_save_double
        create_note_midi_ableton_final_paired create_note_midi_standard_paired
        create_chord_triad_midi_paired)

theorem C7_notes_paired_witness:
  "files_paired w0
   \<and> files_paired (snd (beatmaker_notes [(''A#2'', ''Ending A#2''), (''C#1'', ''Intro C#1'')] w0))
   \<and> files (snd (beatmaker_notes [(''A#2'', ''Ending A#2''), (''C#1'', ''Intro C#1'')] w0))
        ''./notes_beatmaker/01 Intro_C#1.mid''
      = Some [TrackName ''Intro C#1'' 0, SetTempo 500000 0, TimeSignature 4 4 24 8 0,
              NoteOn 37 64 0, NoteOff 37 64 1920, EndOfTrack 0]"
  using C7_notes_paired [OF files_paired_w0,
      where g = "beatmaker_notes [(''A#2'', ''Ending A#2''), (''C#1'', ''Intro C#1'')]"
        and parse = slice_parse and dur = 1920 and dir = "''notes_beatmaker''"
        and notes_data = "[(''A#2'', ''Ending A#2''), (''C#1'', ''Intro C#1'')]"]
  by (simp add: files_paired_w0 beatmaker_notes_def [symmetric] beatmaker_two_notes
        single_note_track_def)


end
